theory Spec2Isabelle
  imports Main "HOL-Library.AList"
begin

section \<open>The chat client of \<^verbatim>\<open>frontend/assets/js/main.js\<close>\<close>

text \<open>
  The class \<^verbatim>\<open>CoworkerApp\<close> keeps its conversations in a JavaScript \<^verbatim>\<open>Map\<close> and talks
  to the backend through \<^verbatim>\<open>fetch\<close>. The model below keeps the fields of the class in a
  record, the \<^verbatim>\<open>Map\<close> as an association list (a \<^verbatim>\<open>Map\<close> iterates in insertion order),
  and every request the code issues in a log. An \<^verbatim>\<open>async\<close> method is cut at its
  \<^verbatim>\<open>await\<close>s: one function for the synchronous run up to the request, one for the
  continuation that runs when the response has arrived. Whatever other handlers ran in
  between is in the state the continuation is applied to. Clock readings
  (\<^verbatim>\<open>new Date()\<close>, \<^verbatim>\<open>Date.now()\<close>) are arguments, in milliseconds. Rendering touches the
  DOM only and is left out. Strings are lists of 8-bit characters, so the model covers
  Latin-1 text.
\<close>

subsection \<open>Data\<close>

datatype msg_type = User | Ai

record message =
  mtype :: msg_type
  content :: string
  timestamp :: int

record chat =
  cid :: string
  title :: string
  messages :: "message list"
  createdAt :: int
  updatedAt :: int
  lastMessage :: "string option"

datatype request =
    GetChats
  | GetHistory string
  | PostChat string string
  | DeleteChat string
  | PostAsk string "string option"
  | GetUserMemory

record app =
  currentChatId :: "string option"
  chats :: "(string \<times> chat) list"
  chatCounter :: nat
  isLoading :: bool
  userMemory :: "(string \<times> string) list"
  inputValue :: string
  requests :: "request list"
  shownErrors :: "string list"

text \<open>What an \<^verbatim>\<open>async\<close> method is doing when its synchronous run ends.\<close>

datatype 'a progress = Returned | Awaiting 'a

text \<open>The request a method that may fetch a history or create a conversation waits for.\<close>

datatype pending = History string | Creation string

subsection \<open>Numbers and strings as JavaScript prints and trims them\<close>

fun show_nat :: "nat \<Rightarrow> string" where
  "show_nat n =
     (if n < 10 then [''0123456789'' ! n]
      else show_nat (n div 10) @ [''0123456789'' ! (n mod 10)])"

declare show_nat.simps [simp del]

definition show_int :: "int \<Rightarrow> string" where
  "show_int i = (if i < 0 then ''-'' @ show_nat (nat (- i)) else show_nat (nat i))"

text \<open>
  \<^verbatim>\<open>String.prototype.trim\<close> removes white space and line terminators at both ends;
  among the Latin-1 characters these are TAB, LF, VT, FF, CR, SPACE and NBSP.
\<close>

definition is_space :: "char \<Rightarrow> bool" where
  "is_space c = ((of_char c :: nat) \<in> {9, 10, 11, 12, 13, 32, 160})"

definition trim :: "string \<Rightarrow> string" where
  "trim s = rev (dropWhile is_space (rev (dropWhile is_space s)))"

subsection \<open>The \<^verbatim>\<open>Map\<close> of conversations and the small helpers\<close>

text \<open>
  \<^verbatim>\<open>this.chats.get(k)\<close> is \<open>map_of\<close>, \<^verbatim>\<open>this.chats.set(k, v)\<close> is \<open>AList.update\<close>
  (an existing key keeps its place, a new key goes to the end), \<^verbatim>\<open>this.chats.delete(k)\<close>
  is \<open>AList.delete\<close>. A conversation object mutated through the reference that
  \<^verbatim>\<open>get\<close> returned is written back at its key, which leaves its place unchanged.
\<close>

definition currentChat :: "app \<Rightarrow> chat option" where
  "currentChat s = (case currentChatId s of None \<Rightarrow> None | Some k \<Rightarrow> map_of (chats s) k)"

text \<open>\<^verbatim>\<open>x || d\<close> on an optional string: absent and empty are both falsy.\<close>

definition or_default :: "string option \<Rightarrow> string \<Rightarrow> string" where
  "or_default x d = (case x of None \<Rightarrow> d | Some v \<Rightarrow> if v = [] then d else v)"

definition issue :: "request list \<Rightarrow> app \<Rightarrow> app" where
  "issue rs s = s\<lparr>requests := requests s @ rs\<rparr>"

definition showError :: "string \<Rightarrow> app \<Rightarrow> app" where
  "showError m s = s\<lparr>shownErrors := shownErrors s @ [m]\<rparr>"

definition clearInput :: "app \<Rightarrow> app" where
  "clearInput s = s\<lparr>inputValue := []\<rparr>"

text \<open>
  A settled \<^verbatim>\<open>fetch\<close> followed by \<^verbatim>\<open>response.json()\<close>: \<open>Rejected\<close> when either
  throws (the \<^verbatim>\<open>catch\<close> branch of the caller), otherwise \<^verbatim>\<open>response.ok\<close> and the
  parsed fields the caller reads.
\<close>

datatype 'a response = Rejected | Body bool 'a

subsection \<open>\<^verbatim>\<open>loadChatsFromBackend\<close>, \<^verbatim>\<open>loadChatHistory\<close>, \<^verbatim>\<open>loadUserMemory\<close>\<close>

text \<open>
  The entries of the listing and of a history as the backend sends them. A timestamp
  field is \<open>Some t\<close> when it holds a value that \<^verbatim>\<open>new Date\<close> reads as \<open>t\<close>, and
  \<open>None\<close> when it is absent or falsy. \<open>clk n\<close> is what the \<open>n\<close>-th evaluation of
  \<^verbatim>\<open>Date.now()\<close> in the loop would return: entry \<open>i\<close> of the listing reads \<open>clk (2 * i)\<close>
  for \<^verbatim>\<open>createdAt\<close> and \<open>clk (2 * i + 1)\<close> for \<^verbatim>\<open>updatedAt\<close>, message \<open>i\<close> of a
  history reads \<open>clk i\<close>.
\<close>

record srv_chat =
  sid :: string
  stitle :: "string option"
  created_at :: "int option"
  updated_at :: "int option"
  last_message :: "string option"

record srv_msg =
  role :: string
  mcontent :: "string option"
  mtimestamp :: "int option"
  mcreated_at :: "int option"

definition hydrate :: "int \<Rightarrow> int \<Rightarrow> srv_chat \<Rightarrow> chat" where
  "hydrate now_created now_updated c =
     \<lparr>cid = sid c,
      title = or_default (stitle c) ''Untitled Chat'',
      messages = [],
      createdAt = (case created_at c of Some t \<Rightarrow> t | None \<Rightarrow> now_created),
      updatedAt = (case updated_at c of Some t \<Rightarrow> t | None \<Rightarrow> now_updated),
      lastMessage = Some (or_default (last_message c) ''No messages yet'')\<rparr>"

fun hydrate_all :: "(nat \<Rightarrow> int) \<Rightarrow> nat \<Rightarrow> srv_chat list \<Rightarrow> (string \<times> chat) list
    \<Rightarrow> (string \<times> chat) list" where
  "hydrate_all clk i [] m = m"
| "hydrate_all clk i (c # cs) m =
     hydrate_all clk (Suc i) cs
       (AList.update (sid c) (hydrate (clk (2 * i)) (clk (2 * i + 1)) c) m)"

definition loadChatsFromBackend_begin :: "app \<Rightarrow> app" where
  "loadChatsFromBackend_begin s = issue [GetChats] s"

definition loadChatsFromBackend_resume ::
    "srv_chat list option response \<Rightarrow> (nat \<Rightarrow> int) \<Rightarrow> app \<Rightarrow> bool \<times> app" where
  "loadChatsFromBackend_resume resp clk s =
     (case resp of
        Rejected \<Rightarrow> (False, s)
      | Body ok listing \<Rightarrow>
          if \<not> ok then (False, s)
          else (case listing of
                  None \<Rightarrow> (False, s)
                | Some cs \<Rightarrow> (True, s\<lparr>chats := hydrate_all clk 0 cs []\<rparr>)))"

definition history_message :: "int \<Rightarrow> srv_msg \<Rightarrow> message" where
  "history_message now m =
     \<lparr>mtype = (if role m = ''user'' then User else Ai),
      content = or_default (mcontent m) [],
      timestamp = (case mtimestamp m of
                     Some t \<Rightarrow> t
                   | None \<Rightarrow> (case mcreated_at m of Some t \<Rightarrow> t | None \<Rightarrow> now))\<rparr>"

definition history_messages :: "(nat \<Rightarrow> int) \<Rightarrow> srv_msg list \<Rightarrow> message list" where
  "history_messages clk h = map (\<lambda>(i, m). history_message (clk i) m) (enumerate 0 h)"

text \<open>\<^verbatim>\<open>if (!chatId) return false\<close>: the empty id issues no request.\<close>

definition loadChatHistory_begin :: "string \<Rightarrow> app \<Rightarrow> app \<times> unit progress" where
  "loadChatHistory_begin chatId s =
     (if chatId = [] then (s, Returned) else (issue [GetHistory chatId] s, Awaiting ()))"

definition loadChatHistory_resume ::
    "string \<Rightarrow> srv_msg list option response \<Rightarrow> (nat \<Rightarrow> int) \<Rightarrow> app \<Rightarrow> bool \<times> app" where
  "loadChatHistory_resume chatId resp clk s =
     (case resp of
        Rejected \<Rightarrow> (False, s)
      | Body ok history \<Rightarrow>
          if \<not> ok then (False, s)
          else (case history of
                  None \<Rightarrow> (True, s)
                | Some h \<Rightarrow>
                    (case map_of (chats s) chatId of
                       Some c \<Rightarrow>
                         (True, s\<lparr>chats := AList.update chatId
                                    (c\<lparr>messages := history_messages clk h\<rparr>) (chats s)\<rparr>)
                     | None \<Rightarrow> (False, s))))"

definition loadUserMemory_begin :: "app \<Rightarrow> app" where
  "loadUserMemory_begin s = issue [GetUserMemory] s"

definition loadUserMemory_resume :: "(string \<times> string) list option response \<Rightarrow> app \<Rightarrow> app" where
  "loadUserMemory_resume resp s =
     (case resp of
        Rejected \<Rightarrow> s
      | Body ok memory \<Rightarrow>
          if ok then s\<lparr>userMemory := (case memory of Some kv \<Rightarrow> kv | None \<Rightarrow> [])\<rparr> else s)"

subsection \<open>\<^verbatim>\<open>switchToChat\<close>\<close>

definition switchToChat_finish :: "string \<Rightarrow> app \<Rightarrow> app" where
  "switchToChat_finish chatId s = s\<lparr>currentChatId := Some chatId\<rparr>"

definition switchToChat_begin :: "string \<Rightarrow> app \<Rightarrow> app \<times> string progress" where
  "switchToChat_begin chatId s =
     (if currentChatId s = Some chatId then (s, Returned)
      else (case map_of (chats s) chatId of
              Some c \<Rightarrow>
                if length (messages c) = 0
                then (case loadChatHistory_begin chatId s of
                        (s', Awaiting u) \<Rightarrow> (s', Awaiting chatId)
                      | (s', Returned) \<Rightarrow> (switchToChat_finish chatId s', Returned))
                else (switchToChat_finish chatId s, Returned)
            | None \<Rightarrow> (switchToChat_finish chatId s, Returned)))"

definition switchToChat_resume ::
    "string \<Rightarrow> srv_msg list option response \<Rightarrow> (nat \<Rightarrow> int) \<Rightarrow> app \<Rightarrow> app" where
  "switchToChat_resume chatId resp clk s =
     switchToChat_finish chatId (snd (loadChatHistory_resume chatId resp clk s))"

subsection \<open>\<^verbatim>\<open>createNewChat\<close>\<close>

definition createNewChat_begin :: "int \<Rightarrow> app \<Rightarrow> app \<times> string" where
  "createNewChat_begin now s =
     (let chatId = ''chat_'' @ show_int now @ ''_'' @ show_nat (chatCounter s)
      in (issue [PostChat chatId ''New Conversation''] (s\<lparr>chatCounter := chatCounter s + 1\<rparr>),
          chatId))"


subsection \<open>\<^verbatim>\<open>addMessageLocally\<close> and \<^verbatim>\<open>updateChatTitleFromFirstMessage\<close>\<close>

definition addMessageLocally :: "msg_type \<Rightarrow> string \<Rightarrow> int \<Rightarrow> int \<Rightarrow> app \<Rightarrow> app" where
  "addMessageLocally ty text t_message t_updated s =
     (case currentChatId s of
        None \<Rightarrow> s
      | Some k \<Rightarrow>
          (case map_of (chats s) k of
             None \<Rightarrow> s
           | Some c \<Rightarrow>
               s\<lparr>chats := AList.update k
                    (c\<lparr>messages := messages c @ [\<lparr>mtype = ty, content = text, timestamp = t_message\<rparr>],
                      updatedAt := t_updated\<rparr>)
                    (chats s)\<rparr>))"

text \<open>A sequence of calls, each with its type, its text and its two clock readings.\<close>

fun addMessagesLocally :: "(msg_type \<times> string \<times> int \<times> int) list \<Rightarrow> app \<Rightarrow> app" where
  "addMessagesLocally [] s = s"
| "addMessagesLocally ((ty, text, t_message, t_updated) # calls) s =
     addMessagesLocally calls (addMessageLocally ty text t_message t_updated s)"

definition call_message :: "msg_type \<times> string \<times> int \<times> int \<Rightarrow> message" where
  "call_message call =
     (case call of (ty, text, t_message, t_updated) \<Rightarrow>
        \<lparr>mtype = ty, content = text, timestamp = t_message\<rparr>)"

definition call_clock :: "msg_type \<times> string \<times> int \<times> int \<Rightarrow> int" where
  "call_clock call = (case call of (ty, text, t_message, t_updated) \<Rightarrow> t_updated)"

definition derivedTitle :: "string \<Rightarrow> string" where
  "derivedTitle firstMessage =
     (if length firstMessage > 40 then take 40 firstMessage @ ''...'' else firstMessage)"

definition updateChatTitleFromFirstMessage_begin :: "string \<Rightarrow> app \<Rightarrow> app \<times> unit progress" where
  "updateChatTitleFromFirstMessage_begin firstMessage s =
     (case currentChatId s of
        None \<Rightarrow> (s, Returned)
      | Some k \<Rightarrow>
          (case map_of (chats s) k of
             None \<Rightarrow> (s, Returned)
           | Some c \<Rightarrow>
               if length (messages c) > 2 then (s, Returned)
               else (issue [PostChat k (derivedTitle firstMessage)]
                       (s\<lparr>chats := AList.update k (c\<lparr>title := derivedTitle firstMessage\<rparr>) (chats s)\<rparr>),
                     Awaiting ())))"

text \<open>
  After the \<^verbatim>\<open>await fetch\<close> of the title request the method only logs a rejection and
  renders; it reads no field of the response.
\<close>

definition updateChatTitleFromFirstMessage_resume :: "unit response \<Rightarrow> app \<Rightarrow> app" where
  "updateChatTitleFromFirstMessage_resume resp s = (case resp of Rejected \<Rightarrow> s | Body ok u \<Rightarrow> s)"

subsection \<open>\<^verbatim>\<open>sendMessage\<close>\<close>

record ask_data =
  response_text :: "string option"
  error_text :: "string option"

definition sendMessage_begin :: "int \<Rightarrow> int \<Rightarrow> app \<Rightarrow> app \<times> string progress" where
  "sendMessage_begin t_message t_updated s =
     (let msg = trim (inputValue s)
      in if msg = [] \<or> isLoading s then (s, Returned)
         else (let s1 = s\<lparr>isLoading := True\<rparr>;
                   s2 = addMessageLocally User msg t_message t_updated s1;
                   s3 = clearInput s2
               in (issue [PostAsk msg (currentChatId s3)] s3, Awaiting msg)))"

text \<open>The test \<^verbatim>\<open>response.ok && data.response\<close> on the settled exchange request.\<close>

definition exchange_succeeded :: "ask_data response \<Rightarrow> bool" where
  "exchange_succeeded resp =
     (case resp of Rejected \<Rightarrow> False | Body ok d \<Rightarrow> ok \<and> or_default (response_text d) [] \<noteq> [])"

definition sendMessage_end :: "app \<Rightarrow> app" where
  "sendMessage_end s = s\<lparr>isLoading := False\<rparr>"

text \<open>
  The continuation after \<^verbatim>\<open>fetch\<close> and \<^verbatim>\<open>response.json()\<close>. On success it still awaits
  \<^verbatim>\<open>loadUserMemory\<close>; \<^verbatim>\<open>updateChatTitleFromFirstMessage\<close> is called without \<^verbatim>\<open>await\<close>.
\<close>

definition sendMessage_resume ::
    "string \<Rightarrow> ask_data response \<Rightarrow> int \<Rightarrow> int \<Rightarrow> app \<Rightarrow> app \<times> unit progress" where
  "sendMessage_resume msg resp t_message t_updated s =
     (case resp of
        Rejected \<Rightarrow>
          (sendMessage_end
             (addMessageLocally Ai
                ''Sorry, I couldn't connect to the server. Please check your connection and try again.''
                t_message t_updated s),
           Returned)
      | Body ok d \<Rightarrow>
          if ok \<and> or_default (response_text d) [] \<noteq> []
          then (let s1 = addMessageLocally Ai (or_default (response_text d) []) t_message t_updated s;
                    s2 = fst (updateChatTitleFromFirstMessage_begin msg s1)
                in (loadUserMemory_begin s2, Awaiting ()))
          else (sendMessage_end
                  (addMessageLocally Ai
                     (or_default (error_text d) ''Sorry, I encountered an error. Please try again.'')
                     t_message t_updated s),
                Returned))"

definition sendMessage_finish :: "(string \<times> string) list option response \<Rightarrow> app \<Rightarrow> app" where
  "sendMessage_finish memory_resp s = sendMessage_end (loadUserMemory_resume memory_resp s)"

text \<open>The continuation run to its end, with the memory response it may still wait for.\<close>

definition sendMessage_complete ::
    "string \<Rightarrow> ask_data response \<Rightarrow> (string \<times> string) list option response
      \<Rightarrow> int \<Rightarrow> int \<Rightarrow> app \<Rightarrow> app" where
  "sendMessage_complete msg resp memory_resp t_message t_updated s =
     (case sendMessage_resume msg resp t_message t_updated s of
        (s', Returned) \<Rightarrow> s'
      | (s', Awaiting u) \<Rightarrow> sendMessage_finish memory_resp s')"

subsection \<open>\<^verbatim>\<open>deleteChat\<close> and \<^verbatim>\<open>clearAllChats\<close>\<close>

definition deleteChat_begin :: "bool \<Rightarrow> string \<Rightarrow> app \<Rightarrow> app \<times> unit progress" where
  "deleteChat_begin confirmed chatId s =
     (if confirmed then (issue [DeleteChat chatId] s, Awaiting ()) else (s, Returned))"

definition deleteChat_resume :: "string \<Rightarrow> bool response \<Rightarrow> int \<Rightarrow> app \<Rightarrow> app \<times> pending progress" where
  "deleteChat_resume chatId resp now s =
     (case resp of
        Rejected \<Rightarrow> (showError ''Failed to delete chat'' s, Returned)
      | Body ok success \<Rightarrow>
          if success
          then (let s1 = s\<lparr>chats := AList.delete chatId (chats s)\<rparr>
                in if currentChatId s1 = Some chatId
                   then (case map snd (chats s1) of
                           c # remaining \<Rightarrow>
                             (let s2 = s1\<lparr>currentChatId := Some (cid c)\<rparr>
                              in case switchToChat_begin (cid c) s2 of
                                   (s3, Awaiting k) \<Rightarrow> (s3, Awaiting (History k))
                                 | (s3, Returned) \<Rightarrow> (s3, Returned))
                         | [] \<Rightarrow>
                             (case createNewChat_begin now s1 of
                                (s2, newId) \<Rightarrow> (s2, Awaiting (Creation newId))))
                   else (s1, Returned))
          else (showError ''Failed to delete chat'' s, Returned))"



subsection \<open>\<^verbatim>\<open>initializeApp\<close> after the listing\<close>

text \<open>
  \<^verbatim>\<open>Array.from(this.chats.values()).sort((a, b) => b.updatedAt - a.updatedAt)[0]\<close>, a
  stable sort by descending \<^verbatim>\<open>updatedAt\<close>.
\<close>

definition mostRecentChat :: "app \<Rightarrow> chat option" where
  "mostRecentChat s =
     (case sort_key (\<lambda>c. - updatedAt c) (map snd (chats s)) of
        [] \<Rightarrow> None
      | c # cs \<Rightarrow> Some c)"

text \<open>
  The part of \<^verbatim>\<open>initializeApp\<close> that follows \<^verbatim>\<open>await this.loadChatsFromBackend()\<close>, up
  to its next \<^verbatim>\<open>await\<close>. Reading \<^verbatim>\<open>id\<close> of a missing first element would throw into
  the \<^verbatim>\<open>catch\<close> branch, which shows an error and creates a conversation.
\<close>

definition initializeApp_afterListing :: "bool \<Rightarrow> int \<Rightarrow> app \<Rightarrow> app \<times> pending progress" where
  "initializeApp_afterListing chatsLoaded now s =
     (if \<not> chatsLoaded \<or> length (chats s) = 0
      then (case createNewChat_begin now s of (s1, newId) \<Rightarrow> (s1, Awaiting (Creation newId)))
      else (case mostRecentChat s of
              Some c \<Rightarrow>
                (case loadChatHistory_begin (cid c) (s\<lparr>currentChatId := Some (cid c)\<rparr>) of
                   (s1, Awaiting u) \<Rightarrow> (s1, Awaiting (History (cid c)))
                 | (s1, Returned) \<Rightarrow> (s1, Returned))
            | None \<Rightarrow>
                (case createNewChat_begin now
                        (showError ''Failed to initialize app. Creating new chat...'' s) of
                   (s1, newId) \<Rightarrow> (s1, Awaiting (Creation newId)))))"

subsection \<open>\<^verbatim>\<open>formatTime\<close>\<close>

text \<open>
  \<^verbatim>\<open>Math.floor(diffMs / k)\<close> on an integer number of milliseconds is \<open>div\<close> on
  \<open>int\<close>, which rounds down for negative numbers as \<^verbatim>\<open>Math.floor\<close> does.
  \<^verbatim>\<open>date.toLocaleDateString()\<close> belongs to the platform and is a parameter.
\<close>

definition formatTime :: "(int \<Rightarrow> string) \<Rightarrow> int \<Rightarrow> int \<Rightarrow> string" where
  "formatTime toLocaleDateString now date =
     (let diffMs = now - date;
          diffMins = diffMs div 60000;
          diffHours = diffMs div 3600000;
          diffDays = diffMs div 86400000
      in if diffMins < 1 then ''Now''
         else if diffMins < 60 then show_int diffMins @ ''m ago''
         else if diffHours < 24 then show_int diffHours @ ''h ago''
         else if diffDays < 7 then show_int diffDays @ ''d ago''
         else toLocaleDateString date)"

subsection \<open>The constructor and the states used as examples\<close>

definition new_app :: app where
  "new_app =
     \<lparr>currentChatId = None, chats = [], chatCounter = 1, isLoading = False,
      userMemory = [], inputValue = [], requests = [], shownErrors = []\<rparr>"

text \<open>
  A conversation as \<^verbatim>\<open>createNewChat\<close> stores it, created at \<open>t_created\<close>, with the
  messages added to it since and the time of the last change.
\<close>

definition a_chat :: "string \<Rightarrow> message list \<Rightarrow> int \<Rightarrow> int \<Rightarrow> chat" where
  "a_chat k ms t_created t_updated =
     \<lparr>cid = k, title = ''New Conversation'', messages = ms,
      createdAt = t_created, updatedAt = t_updated, lastMessage = None\<rparr>"

definition a_message :: "msg_type \<Rightarrow> string \<Rightarrow> int \<Rightarrow> message" where
  "a_message ty text t = \<lparr>mtype = ty, content = text, timestamp = t\<rparr>"

text \<open>
  Three conversations in the order they were created and put into the \<^verbatim>\<open>Map\<close>, at
  the clock readings 10, 20 and 30: \<open>a\<close> is current and has had one exchange, at 40;
  \<open>b\<close> and \<open>c\<close> have no messages, so \<open>c\<close> is the more recently updated of the two.
\<close>

definition three_chats :: app where
  "three_chats =
     new_app\<lparr>currentChatId := Some ''a'',
             chats := [(''a'', a_chat ''a'' [a_message User ''hi'' 38, a_message Ai ''hello'' 40] 10 40),
                       (''b'', a_chat ''b'' [] 20 20),
                       (''c'', a_chat ''c'' [] 30 30)]\<rparr>"

text \<open>The user has typed a question into the input while \<open>a\<close> is current.\<close>

definition asking :: app where
  "asking = three_chats\<lparr>inputValue := ''  why?  ''\<rparr>"

text \<open>
  The question was sent from \<open>a\<close>; while the exchange request is outstanding the user
  clicked \<open>b\<close>, whose history was fetched and came back empty, so \<open>b\<close> is current when
  the answer to the question arrives.
\<close>

definition switched_away :: app where
  "switched_away =
     switchToChat_resume ''b'' (Body True (Some [])) (\<lambda>i. 43)
       (fst (switchToChat_begin ''b'' (fst (sendMessage_begin 41 42 asking))))"

text \<open>The first message typed into the empty conversation \<open>c\<close>.\<close>

definition first_question :: app where
  "first_question =
     three_chats\<lparr>currentChatId := Some ''c'',
                 inputValue :=
                   ''Explain recursion in programming with a long example text exceeding forty chars''\<rparr>"

text \<open>
  The first message was sent from \<open>c\<close>; while the exchange request is outstanding the
  user clicked \<open>b\<close>, whose history was fetched and came back empty, so \<open>b\<close> is current
  when the answer arrives.
\<close>

definition switched_from_first :: app where
  "switched_from_first =
     switchToChat_resume ''b'' (Body True (Some [])) (\<lambda>i. 43)
       (fst (switchToChat_begin ''b'' (fst (sendMessage_begin 41 42 first_question))))"

text \<open>
  A start of the application: the listing holds one conversation, titled Plans, with a
  last message; \<^verbatim>\<open>initializeApp\<close> selects it and requests its history, the request is
  rejected, and the user types a message.
\<close>

definition plans_unloaded :: app where
  "plans_unloaded =
     (snd (loadChatHistory_resume ''p'' Rejected (\<lambda>i. 502)
        (fst (initializeApp_afterListing True 501
           (snd (loadChatsFromBackend_resume
              (Body True (Some [\<lparr>sid = ''p'', stitle = Some ''Plans'', created_at = Some 100,
                                 updated_at = Some 200, last_message = Some ''See you''\<rparr>]))
              (\<lambda>i. 500) new_app))))))
     \<lparr>inputValue := ''hello''\<rparr>"

section \<open>Properties\<close>

subsection \<open>Relative time\<close>

lemma show_nat_digit: "n < 10 \<Longrightarrow> show_nat n = [''0123456789'' ! n]"
  by (simp add: show_nat.simps)

lemma div_lt_1: "((e::int) div 60000 < 1) = (e < 60000)"
  by arith

lemma div_lt_60: "((e::int) div 60000 < 60) = (e < 3600000)"
  by arith

lemma div_lt_24: "((e::int) div 3600000 < 24) = (e < 86400000)"
  by arith

lemma div_lt_7: "((e::int) div 86400000 < 7) = (e < 604800000)"
  by arith

lemma formatTime_elapsed:
  "formatTime L now (now - e) =
     (if e < 60000 then ''Now''
      else if e < 3600000 then show_int (e div 60000) @ ''m ago''
      else if e < 86400000 then show_int (e div 3600000) @ ''h ago''
      else if e < 604800000 then show_int (e div 86400000) @ ''d ago''
      else L (now - e))"
  by (simp add: formatTime_def Let_def div_lt_1 div_lt_60 div_lt_24 div_lt_7)

text \<open>
  C9: for a non-negative elapsed time \<open>e\<close> the label is "Now" below one minute, the
  floor of \<open>e / 60000\<close> with "m ago" below one hour, the floor of \<open>e / 3600000\<close> with
  "h ago" below one day, the floor of \<open>e / 86400000\<close> with "d ago" below seven days
  and the platform's date string from seven days on; an exact boundary belongs to the
  coarser unit (3600000 ms is "1h ago").
\<close>

theorem formatTime_buckets:
  "0 \<le> e \<Longrightarrow>
   formatTime L now (now - e) =
     (if e < 60000 then ''Now''
      else if e < 3600000 then show_int (e div 60000) @ ''m ago''
      else if e < 86400000 then show_int (e div 3600000) @ ''h ago''
      else if e < 604800000 then show_int (e div 86400000) @ ''d ago''
      else L (now - e))
   \<and> formatTime L now (now - 60000) = ''1m ago''
   \<and> formatTime L now (now - 3600000) = ''1h ago''
   \<and> formatTime L now (now - 86400000) = ''1d ago''
   \<and> formatTime L now (now - 604800000) = L (now - 604800000)"
  by (simp add: formatTime_elapsed show_int_def show_nat_digit)

theorem formatTime_buckets_witness:
  "formatTime (\<lambda>d. ''1/1/2024'') 7200000 (7200000 - 0) = ''Now''
   \<and> formatTime (\<lambda>d. ''1/1/2024'') 7200000 (7200000 - 59000) = ''Now''
   \<and> formatTime (\<lambda>d. ''1/1/2024'') 7200000 (7200000 - 3599999) = ''59m ago''
   \<and> formatTime (\<lambda>d. ''1/1/2024'') 7200000 (7200000 - 3600000) = ''1h ago''"
  using formatTime_buckets [of 0 "\<lambda>d. ''1/1/2024''" 7200000]
    formatTime_buckets [of 59000 "\<lambda>d. ''1/1/2024''" 7200000]
    formatTime_buckets [of 3599999 "\<lambda>d. ''1/1/2024''" 7200000]
  by (simp add: show_int_def show_nat.simps)

subsection \<open>Facts about the helpers\<close>

lemma map_of_update_eq [simp]: "map_of (AList.update k v al) k = Some v"
  by (simp add: update_conv')

lemma map_of_update_neq [simp]: "j \<noteq> k \<Longrightarrow> map_of (AList.update k v al) j = map_of al j"
  by (simp add: update_conv')

lemma issue_fields [simp]:
  "currentChatId (issue rs s) = currentChatId s"
  "chats (issue rs s) = chats s"
  "requests (issue rs s) = requests s @ rs"
  "isLoading (issue rs s) = isLoading s"
  by (simp_all add: issue_def)

lemma createNewChat_begin_fields [simp]:
  "chats (fst (createNewChat_begin now s)) = chats s"
  "currentChatId (fst (createNewChat_begin now s)) = currentChatId s"
  "requests (fst (createNewChat_begin now s))
     = requests s @ [PostChat (snd (createNewChat_begin now s)) ''New Conversation'']"
  "chatCounter (fst (createNewChat_begin now s)) = chatCounter s + 1"
  "snd (createNewChat_begin now s) = ''chat_'' @ show_int now @ ''_'' @ show_nat (chatCounter s)"
  by (simp_all add: createNewChat_begin_def Let_def issue_def)

subsection \<open>Deleting the current conversation\<close>

text \<open>
  C1: the claim is that after the current conversation is deleted the remaining
  conversation with the greatest \<open>updatedAt\<close> becomes current and its history is loaded.
  On the store \<open>three_chats\<close> the code makes \<open>b\<close> current, the first remaining entry
  of the \<^verbatim>\<open>Map\<close>, although \<open>c\<close> was updated later and is what \<^verbatim>\<open>initializeApp\<close> would
  choose; and since \<^verbatim>\<open>currentChatId\<close> is assigned before \<^verbatim>\<open>switchToChat\<close> is called,
  that call returns at its first test: the only request in the log is the delete, and
  the history of \<open>b\<close> is not requested.
\<close>

theorem deleteChat_selects_first_remaining:
  "currentChatId (fst (deleteChat_resume ''a'' (Body True True) 0
                         (fst (deleteChat_begin True ''a'' three_chats)))) = Some ''b''
   \<and> snd (deleteChat_resume ''a'' (Body True True) 0
             (fst (deleteChat_begin True ''a'' three_chats))) = Returned
   \<and> requests (fst (deleteChat_resume ''a'' (Body True True) 0
                      (fst (deleteChat_begin True ''a'' three_chats)))) = [DeleteChat ''a'']
   \<and> map fst (chats (fst (deleteChat_resume ''a'' (Body True True) 0
                             (fst (deleteChat_begin True ''a'' three_chats))))) = [''b'', ''c'']
   \<and> map_option messages
        (map_of (chats (fst (deleteChat_resume ''a'' (Body True True) 0
                               (fst (deleteChat_begin True ''a'' three_chats))))) ''b'') = Some []
   \<and> map_option cid
        (mostRecentChat (fst (deleteChat_resume ''a'' (Body True True) 0
                                (fst (deleteChat_begin True ''a'' three_chats)))))
       = Some ''c''"
  by (simp add: deleteChat_resume_def deleteChat_begin_def three_chats_def new_app_def
      a_chat_def a_message_def issue_def switchToChat_begin_def mostRecentChat_def)

subsection \<open>Switching and the history fetch\<close>

lemma switchToChat_begin_unloaded:
  assumes "chatId \<noteq> []" "currentChatId s \<noteq> Some chatId"
    "map_of (chats s) chatId = Some c" "messages c = []"
  shows "switchToChat_begin chatId s = (issue [GetHistory chatId] s, Awaiting chatId)"
  using assms by (simp add: switchToChat_begin_def loadChatHistory_begin_def)

lemma switchToChat_resume_current [simp]:
  "currentChatId (switchToChat_resume chatId resp clk s) = Some chatId"
  by (simp add: switchToChat_resume_def switchToChat_finish_def)

lemma switchToChat_resume_requests [simp]:
  "requests (switchToChat_resume chatId resp clk s) = requests s"
  by (simp add: switchToChat_resume_def switchToChat_finish_def loadChatHistory_resume_def
      split: response.split option.split)

lemma switchToChat_resume_history:
  "map_of (chats s) chatId = Some c \<Longrightarrow>
   map_of (chats (switchToChat_resume chatId (Body True (Some h)) clk s)) chatId
     = Some (c\<lparr>messages := history_messages clk h\<rparr>)"
  by (simp add: switchToChat_resume_def switchToChat_finish_def loadChatHistory_resume_def)

lemma switchToChat_resume_exists:
  "map_of (chats s) chatId = Some c \<Longrightarrow>
   \<exists>c'. map_of (chats (switchToChat_resume chatId resp clk s)) chatId = Some c'"
  by (simp add: switchToChat_resume_def switchToChat_finish_def loadChatHistory_resume_def
      split: response.split option.split)

text \<open>
  C2, as claimed: two concurrent \<^verbatim>\<open>switchToChat\<close> calls for the same conversation that is
  not loaded issue exactly one history request. On \<open>three_chats\<close> the second call, made
  while the first awaits its response, issues a second request for \<open>b\<close>.
\<close>

theorem switchToChat_twice_counterexample:
  "requests (fst (switchToChat_begin ''b''
                    (fst (switchToChat_begin ''b'' three_chats))))
     = [GetHistory ''b'', GetHistory ''b'']
   \<and> snd (switchToChat_begin ''b'' three_chats) = Awaiting ''b''
   \<and> snd (switchToChat_begin ''b'' (fst (switchToChat_begin ''b'' three_chats))) = Awaiting ''b''"
  by (simp add: switchToChat_begin_def loadChatHistory_begin_def three_chats_def new_app_def
      a_chat_def a_message_def issue_def)

text \<open>
  C2, amended: the code keeps no record of an outstanding fetch. Each of two
  \<^verbatim>\<open>switchToChat\<close> calls for a conversation with no messages that is not current issues
  its own history request and awaits it; each continuation applies its own response, so
  after both the conversation is current, and when the response handled last carries a
  history, the messages are those of that response.
\<close>

theorem switchToChat_twice_two_requests:
  assumes "chatId \<noteq> []" "currentChatId s \<noteq> Some chatId"
    "map_of (chats s) chatId = Some c" "messages c = []"
  shows "requests (fst (switchToChat_begin chatId (fst (switchToChat_begin chatId s))))
           = requests s @ [GetHistory chatId, GetHistory chatId]
         \<and> snd (switchToChat_begin chatId s) = Awaiting chatId
         \<and> snd (switchToChat_begin chatId (fst (switchToChat_begin chatId s))) = Awaiting chatId
         \<and> currentChatId
             (switchToChat_resume chatId r2 clk2
               (switchToChat_resume chatId r1 clk1
                 (fst (switchToChat_begin chatId (fst (switchToChat_begin chatId s))))))
             = Some chatId
         \<and> map_option messages
             (map_of (chats
               (switchToChat_resume chatId (Body True (Some h2)) clk2
                 (switchToChat_resume chatId r1 clk1
                   (fst (switchToChat_begin chatId (fst (switchToChat_begin chatId s)))))))
               chatId)
             = Some (history_messages clk2 h2)"
proof -
  let ?s1 = "issue [GetHistory chatId] s"
  let ?s2 = "issue [GetHistory chatId] ?s1"
  have b1: "switchToChat_begin chatId s = (?s1, Awaiting chatId)"
    using assms by (rule switchToChat_begin_unloaded)
  have b2: "switchToChat_begin chatId ?s1 = (?s2, Awaiting chatId)"
    using assms by (intro switchToChat_begin_unloaded) simp_all
  obtain c' where c': "map_of (chats (switchToChat_resume chatId r1 clk1 ?s2)) chatId = Some c'"
    using switchToChat_resume_exists [of ?s2 chatId c r1 clk1] assms by auto
  show ?thesis
    using switchToChat_resume_history [OF c', of h2 clk2]
    by (simp add: b1 b2)
qed

theorem switchToChat_twice_two_requests_witness:
  "requests (fst (switchToChat_begin ''b'' (fst (switchToChat_begin ''b'' three_chats))))
     = [GetHistory ''b'', GetHistory ''b'']
   \<and> map_option messages
       (map_of (chats
          (switchToChat_resume ''b'' (Body True (Some [\<lparr>role = ''user'', mcontent = Some ''two'',
                 mtimestamp = Some 2, mcreated_at = None\<rparr>])) (\<lambda>i. 0)
            (switchToChat_resume ''b'' (Body True (Some [\<lparr>role = ''user'', mcontent = Some ''one'',
                 mtimestamp = Some 1, mcreated_at = None\<rparr>])) (\<lambda>i. 0)
              (fst (switchToChat_begin ''b'' (fst (switchToChat_begin ''b'' three_chats)))))))
          ''b'')
     = Some [\<lparr>mtype = User, content = ''two'', timestamp = 2\<rparr>]"
  using switchToChat_twice_two_requests [of "''b''" three_chats "a_chat ''b'' [] 20 20"
      "Body True (Some [\<lparr>role = ''user'', mcontent = Some ''two'',
                 mtimestamp = Some 2, mcreated_at = None\<rparr>])" "\<lambda>i. 0"
      "Body True (Some [\<lparr>role = ''user'', mcontent = Some ''one'',
                 mtimestamp = Some 1, mcreated_at = None\<rparr>])" "\<lambda>i. 0"
      "[\<lparr>role = ''user'', mcontent = Some ''two'', mtimestamp = Some 2, mcreated_at = None\<rparr>]"]
  by (simp add: three_chats_def new_app_def a_chat_def a_message_def history_messages_def
      history_message_def or_default_def)




subsection \<open>Clearing all conversations\<close>








subsection \<open>Appending messages\<close>

lemma addMessageLocally_fields [simp]:
  "currentChatId (addMessageLocally ty text tm tu s) = currentChatId s"
  "isLoading (addMessageLocally ty text tm tu s) = isLoading s"
  "requests (addMessageLocally ty text tm tu s) = requests s"
  "inputValue (addMessageLocally ty text tm tu s) = inputValue s"
  by (simp_all add: addMessageLocally_def split: option.split)

lemma addMessageLocally_current:
  "currentChatId s = Some k \<Longrightarrow> map_of (chats s) k = Some c \<Longrightarrow>
   chats (addMessageLocally ty text tm tu s)
     = AList.update k
         (c\<lparr>messages := messages c @ [\<lparr>mtype = ty, content = text, timestamp = tm\<rparr>],
           updatedAt := tu\<rparr>) (chats s)"
  by (simp add: addMessageLocally_def)

lemma addMessageLocally_map_of:
  "currentChatId s = Some k \<Longrightarrow> map_of (chats s) k = Some c \<Longrightarrow>
   map_of (chats (addMessageLocally ty str tm tu s))
     = (map_of (chats s))
         (k \<mapsto> c\<lparr>messages := messages c @ [\<lparr>mtype = ty, content = str, timestamp = tm\<rparr>],
                 updatedAt := tu\<rparr>)"
  by (simp add: addMessageLocally_current update_conv')

lemma addMessageLocally_absent:
  "currentChatId s = None \<or> (\<exists>k. currentChatId s = Some k \<and> map_of (chats s) k = None) \<Longrightarrow>
   addMessageLocally ty str tm tu s = s"
  by (auto simp: addMessageLocally_def)

lemma currentChat_Some:
  "currentChat s = Some c \<longleftrightarrow> (\<exists>k. currentChatId s = Some k \<and> map_of (chats s) k = Some c)"
  by (simp add: currentChat_def split: option.split)

lemma addMessagesLocally_current:
  "currentChatId s = Some k \<Longrightarrow> map_of (chats s) k = Some c \<Longrightarrow>
   currentChatId (addMessagesLocally calls s) = Some k
   \<and> map_of (chats (addMessagesLocally calls s)) k
       = Some (c\<lparr>messages := messages c @ map call_message calls,
                 updatedAt := last (updatedAt c # map call_clock calls)\<rparr>)"
proof (induction calls arbitrary: s c)
  case Nil
  then show ?case by simp
next
  case (Cons call calls)
  obtain ty str tm tu where call: "call = (ty, str, tm, tu)"
    by (cases call) auto
  let ?c1 = "c\<lparr>messages := messages c @ [\<lparr>mtype = ty, content = str, timestamp = tm\<rparr>],
               updatedAt := tu\<rparr>"
  let ?s1 = "addMessageLocally ty str tm tu s"
  have k: "currentChatId ?s1 = Some k"
    using Cons.prems by simp
  have c1: "map_of (chats ?s1) k = Some ?c1"
    using Cons.prems by (simp add: addMessageLocally_current)
  show ?case
    using Cons.IH [OF k c1] by (simp add: call call_message_def call_clock_def)
qed

lemma addMessagesLocally_currentChat:
  assumes "currentChat s = Some c"
  shows "currentChat (addMessagesLocally calls s)
           = Some (c\<lparr>messages := messages c @ map call_message calls,
                     updatedAt := last (updatedAt c # map call_clock calls)\<rparr>)"
proof -
  from assms obtain k where k: "currentChatId s = Some k" "map_of (chats s) k = Some c"
    by (auto simp: currentChat_Some)
  from addMessagesLocally_current [OF k, of calls] show ?thesis
    by (simp add: currentChat_def)
qed

lemma last_take_clock:
  "n \<le> length ys \<Longrightarrow> last (x # take n ys) = (x # ys) ! n"
proof (induction n arbitrary: x ys)
  case 0
  then show ?case by simp
next
  case (Suc n)
  then obtain y ys' where "ys = y # ys'" by (cases ys) auto
  with Suc show ?case by simp
qed

text \<open>
  C5, as claimed: after each append \<open>updatedAt\<close> is at least what it was before and at
  least \<open>createdAt\<close>. The listing gives a conversation whose \<^verbatim>\<open>created_at\<close> and
  \<^verbatim>\<open>updated_at\<close> are 1100 and 1200 while the browser's clock reads 500;
  \<^verbatim>\<open>initializeApp\<close> makes it current. An append at clock reading 501 sets \<open>updatedAt\<close>
  to 501, below its previous value 1200 and below \<open>createdAt\<close>.
\<close>

theorem appends_hydrated_counterexample:
  "map_option updatedAt
     (currentChat (fst (initializeApp_afterListing True 500 (snd (loadChatsFromBackend_resume
        (Body True (Some [\<lparr>sid = ''a'', stitle = Some ''Plans'', created_at = Some 1100,
                           updated_at = Some 1200, last_message = None\<rparr>]))
        (\<lambda>i. 500) new_app)))))
     = Some 1200
   \<and> map_option updatedAt
       (currentChat (addMessageLocally User ''hi'' 501 501
          (fst (initializeApp_afterListing True 500 (snd (loadChatsFromBackend_resume
            (Body True (Some [\<lparr>sid = ''a'', stitle = Some ''Plans'', created_at = Some 1100,
                               updated_at = Some 1200, last_message = None\<rparr>]))
            (\<lambda>i. 500) new_app))))))
     = Some 501
   \<and> map_option createdAt
       (currentChat (addMessageLocally User ''hi'' 501 501
          (fst (initializeApp_afterListing True 500 (snd (loadChatsFromBackend_resume
            (Body True (Some [\<lparr>sid = ''a'', stitle = Some ''Plans'', created_at = Some 1100,
                               updated_at = Some 1200, last_message = None\<rparr>]))
            (\<lambda>i. 500) new_app))))))
     = Some 1100"
  by (simp add: loadChatsFromBackend_resume_def initializeApp_afterListing_def mostRecentChat_def
      loadChatHistory_begin_def hydrate_def or_default_def new_app_def issue_def
      addMessageLocally_def currentChat_def)

text \<open>
  C5, amended: for every sequence of appends to the current conversation the messages
  are the old ones followed by the appended ones in call order, \<open>createdAt\<close> does not
  change, and after each append \<open>updatedAt\<close> is the clock reading taken by that append.
  So when the readings do not decrease, starting from the stored \<open>updatedAt\<close>, and the
  conversation starts with \<open>createdAt\<close> at most \<open>updatedAt\<close>, then after each append
  \<open>updatedAt\<close> is at least its value before the append and at least \<open>createdAt\<close>.
\<close>

theorem appends_in_call_order:
  assumes "currentChat s = Some c"
  shows "map_option messages (currentChat (addMessagesLocally calls s))
           = Some (messages c @ map call_message calls)
         \<and> map_option createdAt (currentChat (addMessagesLocally calls s)) = Some (createdAt c)
         \<and> (\<forall>n < length calls.
              map_option updatedAt (currentChat (addMessagesLocally (take (Suc n) calls) s))
                = Some (call_clock (calls ! n)))
         \<and> (sorted (updatedAt c # map call_clock calls) \<and> createdAt c \<le> updatedAt c \<longrightarrow>
             (\<forall>n < length calls.
                \<exists>u u'. map_option updatedAt (currentChat (addMessagesLocally (take n calls) s)) = Some u
                  \<and> map_option updatedAt (currentChat (addMessagesLocally (take (Suc n) calls) s)) = Some u'
                  \<and> u \<le> u' \<and> createdAt c \<le> u'))"
proof -
  note cur = addMessagesLocally_currentChat [OF assms]
  have upd: "map_option updatedAt (currentChat (addMessagesLocally (take n calls) s))
               = Some ((updatedAt c # map call_clock calls) ! n)"
    if "n \<le> length calls" for n
    using that last_take_clock [of n "map call_clock calls" "updatedAt c"]
    by (simp add: cur take_map)
  have mono: "\<exists>u u'. map_option updatedAt (currentChat (addMessagesLocally (take n calls) s)) = Some u
                  \<and> map_option updatedAt (currentChat (addMessagesLocally (take (Suc n) calls) s)) = Some u'
                  \<and> u \<le> u' \<and> createdAt c \<le> u'"
    if srt: "sorted (updatedAt c # map call_clock calls)" and cr: "createdAt c \<le> updatedAt c"
      and n: "n < length calls" for n
  proof -
    let ?xs = "updatedAt c # map call_clock calls"
    have len: "Suc n < length ?xs" using n by simp
    have a: "?xs ! n \<le> ?xs ! Suc n"
      using sorted_nth_mono [OF srt, of n "Suc n"] len by simp
    have b: "?xs ! 0 \<le> ?xs ! Suc n"
      using sorted_nth_mono [OF srt, of 0 "Suc n"] len by simp
    have d: "createdAt c \<le> ?xs ! Suc n" using b cr by simp
    have u: "map_option updatedAt (currentChat (addMessagesLocally (take n calls) s))
               = Some (?xs ! n)"
      by (rule upd) (use n in simp)
    have u': "map_option updatedAt (currentChat (addMessagesLocally (take (Suc n) calls) s))
               = Some (?xs ! Suc n)"
      by (rule upd) (use n in simp)
    show ?thesis using u u' a d by blast
  qed
  have ords: "map_option messages (currentChat (addMessagesLocally calls s))
                = Some (messages c @ map call_message calls)"
    and crea: "map_option createdAt (currentChat (addMessagesLocally calls s))
                = Some (createdAt c)"
    by (simp_all add: cur)
  have each: "map_option updatedAt (currentChat (addMessagesLocally (take (Suc n) calls) s))
                = Some (call_clock (calls ! n))"
    if "n < length calls" for n
    using upd [of "Suc n"] that by simp
  show ?thesis
    using ords crea each mono by blast
qed

theorem appends_in_call_order_witness:
  "currentChat three_chats
     = Some (a_chat ''a'' [a_message User ''hi'' 38, a_message Ai ''hello'' 40] 10 40)
   \<and> map_option (\<lambda>c. map content (messages c))
       (currentChat (addMessagesLocally [(User, ''x'', 40, 41), (Ai, ''y'', 50, 51)] three_chats))
     = Some [''hi'', ''hello'', ''x'', ''y'']
   \<and> map_option updatedAt
       (currentChat (addMessagesLocally (take (Suc 1) [(User, ''x'', 40, 41), (Ai, ''y'', 50, 51)])
          three_chats))
     = Some 51
   \<and> (\<exists>u u'. map_option updatedAt
                (currentChat (addMessagesLocally (take 1 [(User, ''x'', 40, 41), (Ai, ''y'', 50, 51)])
                   three_chats)) = Some u
            \<and> map_option updatedAt
                (currentChat (addMessagesLocally (take (Suc 1) [(User, ''x'', 40, 41), (Ai, ''y'', 50, 51)])
                   three_chats)) = Some u'
            \<and> u \<le> u' \<and> 10 \<le> u')"
proof -
  let ?c = "a_chat ''a'' [a_message User ''hi'' 38, a_message Ai ''hello'' 40] 10 40"
  let ?calls = "[(User, ''x'', 40, 41), (Ai, ''y'', 50, 51)] :: (msg_type \<times> string \<times> int \<times> int) list"
  have cur: "currentChat three_chats = Some ?c"
    by (simp add: currentChat_def three_chats_def new_app_def)
  have srt: "sorted (updatedAt ?c # map call_clock ?calls) \<and> createdAt ?c \<le> updatedAt ?c"
    by (simp add: call_clock_def a_chat_def)
  have n: "(1::nat) < length ?calls"
    by simp
  note t = appends_in_call_order [OF cur, of ?calls]
  from t have m: "map_option messages (currentChat (addMessagesLocally ?calls three_chats))
                    = Some (messages ?c @ map call_message ?calls)"
    by blast
  from t n have u: "map_option updatedAt
                      (currentChat (addMessagesLocally (take (Suc 1) ?calls) three_chats))
                      = Some (call_clock (?calls ! 1))"
    by blast
  from t srt n have e: "\<exists>u u'. map_option updatedAt
                (currentChat (addMessagesLocally (take 1 ?calls) three_chats)) = Some u
            \<and> map_option updatedAt
                (currentChat (addMessagesLocally (take (Suc 1) ?calls) three_chats)) = Some u'
            \<and> u \<le> u' \<and> createdAt ?c \<le> u'"
    by blast
  have m': "map_option (\<lambda>c. map content (messages c))
              (currentChat (addMessagesLocally ?calls three_chats))
            = Some [''hi'', ''hello'', ''x'', ''y'']"
    using m by (auto simp: call_message_def a_chat_def a_message_def)
  have u': "map_option updatedAt
              (currentChat (addMessagesLocally (take (Suc 1) ?calls) three_chats)) = Some 51"
    using u by (simp add: call_clock_def)
  have e': "\<exists>u u'. map_option updatedAt
                (currentChat (addMessagesLocally (take 1 ?calls) three_chats)) = Some u
            \<and> map_option updatedAt
                (currentChat (addMessagesLocally (take (Suc 1) ?calls) three_chats)) = Some u'
            \<and> u \<le> u' \<and> 10 \<le> u'"
    using e by (simp add: a_chat_def)
  show ?thesis
    using cur m' u' e' by blast
qed

subsection \<open>Sending a message\<close>

lemma title_begin_map_of:
  "currentChatId s = Some k \<Longrightarrow> map_of (chats s) k = Some c \<Longrightarrow>
   map_of (chats (fst (updateChatTitleFromFirstMessage_begin m s)))
     = (map_of (chats s))
         (k \<mapsto> (if length (messages c) > 2 then c else c\<lparr>title := derivedTitle m\<rparr>))"
  by (auto simp: updateChatTitleFromFirstMessage_begin_def update_conv' issue_def)

lemma title_begin_fields [simp]:
  "currentChatId (fst (updateChatTitleFromFirstMessage_begin m s)) = currentChatId s"
  "isLoading (fst (updateChatTitleFromFirstMessage_begin m s)) = isLoading s"
  by (simp_all add: updateChatTitleFromFirstMessage_begin_def issue_def split: option.split)

lemma title_begin_absent:
  "currentChatId s = None \<or> (\<exists>k. currentChatId s = Some k \<and> map_of (chats s) k = None) \<Longrightarrow>
   updateChatTitleFromFirstMessage_begin m s = (s, Returned)"
  by (auto simp: updateChatTitleFromFirstMessage_begin_def)

lemma resume_failed:
  "\<not> exchange_succeeded resp \<Longrightarrow>
   \<exists>str. sendMessage_resume msg resp tm tu s
           = (sendMessage_end (addMessageLocally Ai str tm tu s), Returned)"
  by (cases resp) (auto simp: sendMessage_resume_def exchange_succeeded_def)

lemma resume_succeeded:
  "exchange_succeeded resp \<Longrightarrow>
   \<exists>str. sendMessage_resume msg resp tm tu s
           = (loadUserMemory_begin
                (fst (updateChatTitleFromFirstMessage_begin msg (addMessageLocally Ai str tm tu s))),
              Awaiting ())"
  by (cases resp) (auto simp: sendMessage_resume_def exchange_succeeded_def Let_def)

lemma sendMessage_end_fields [simp]:
  "chats (sendMessage_end s) = chats s"
  "currentChatId (sendMessage_end s) = currentChatId s"
  "isLoading (sendMessage_end s) = False"
  "requests (sendMessage_end s) = requests s"
  by (simp_all add: sendMessage_end_def)

lemma loadUserMemory_fields [simp]:
  "chats (loadUserMemory_begin s) = chats s"
  "currentChatId (loadUserMemory_begin s) = currentChatId s"
  "chats (loadUserMemory_resume r s) = chats s"
  "currentChatId (loadUserMemory_resume r s) = currentChatId s"
  by (simp_all add: loadUserMemory_begin_def loadUserMemory_resume_def split: response.split)

lemma sendMessage_complete_chats:
  "chats (sendMessage_complete msg resp mem tm tu s) = chats (fst (sendMessage_resume msg resp tm tu s))"
  by (simp add: sendMessage_complete_def sendMessage_finish_def split: prod.split progress.split)

lemma sendMessage_complete_isLoading:
  "isLoading (sendMessage_complete msg resp mem tm tu s) = False"
proof (cases "exchange_succeeded resp")
  case True
  from resume_succeeded [OF True, of msg tm tu s] show ?thesis
    by (auto simp: sendMessage_complete_def sendMessage_finish_def)
next
  case False
  from resume_failed [OF False, of msg tm tu s] show ?thesis
    by (auto simp: sendMessage_complete_def)
qed

lemma sendMessage_begin_accepted:
  "trim (inputValue s) \<noteq> [] \<Longrightarrow> \<not> isLoading s \<Longrightarrow>
   sendMessage_begin tm tu s
     = (issue [PostAsk (trim (inputValue s)) (currentChatId s)]
          (clearInput (addMessageLocally User (trim (inputValue s)) tm tu (s\<lparr>isLoading := True\<rparr>))),
        Awaiting (trim (inputValue s)))"
  by (simp add: sendMessage_begin_def Let_def clearInput_def)

lemma sendMessage_begin_map_of:
  assumes "currentChatId s = Some k" "map_of (chats s) k = Some c"
    "trim (inputValue s) \<noteq> []" "\<not> isLoading s"
  shows "map_of (chats (fst (sendMessage_begin tm tu s))) k
           = Some (c\<lparr>messages := messages c @
                        [\<lparr>mtype = User, content = trim (inputValue s), timestamp = tm\<rparr>],
                     updatedAt := tu\<rparr>)"
    and "currentChatId (fst (sendMessage_begin tm tu s)) = Some k"
  using assms
  by (simp_all add: sendMessage_begin_accepted clearInput_def
      addMessageLocally_map_of [where s = "s\<lparr>isLoading := True\<rparr>"])

lemma sendMessage_complete_shownErrors:
  "shownErrors (sendMessage_complete msg resp mem tm tu s) = shownErrors s"
  by (cases resp)
    (auto simp: sendMessage_complete_def sendMessage_resume_def sendMessage_finish_def
      sendMessage_end_def loadUserMemory_begin_def loadUserMemory_resume_def issue_def
      updateChatTitleFromFirstMessage_begin_def addMessageLocally_def Let_def
      split: option.splits response.splits)

text \<open>How the continuation changes the store, for a current conversation that exists.\<close>

lemma resume_map_of:
  assumes "currentChatId s = Some k" "map_of (chats s) k = Some c"
  shows "\<exists>str. map_of (chats (fst (sendMessage_resume msg resp tm tu s)))
           = (map_of (chats s))
               (k \<mapsto> (if exchange_succeeded resp \<and> length (messages c) + 1 \<le> 2
                       then c\<lparr>messages := messages c @ [\<lparr>mtype = Ai, content = str, timestamp = tm\<rparr>],
                              updatedAt := tu, title := derivedTitle msg\<rparr>
                       else c\<lparr>messages := messages c @ [\<lparr>mtype = Ai, content = str, timestamp = tm\<rparr>],
                              updatedAt := tu\<rparr>))"
proof (cases "exchange_succeeded resp")
  case True
  from resume_succeeded [OF True, of msg tm tu s] obtain str where
    r: "sendMessage_resume msg resp tm tu s
          = (loadUserMemory_begin
               (fst (updateChatTitleFromFirstMessage_begin msg (addMessageLocally Ai str tm tu s))),
             Awaiting ())"
    by blast
  let ?s1 = "addMessageLocally Ai str tm tu s"
  let ?c1 = "c\<lparr>messages := messages c @ [\<lparr>mtype = Ai, content = str, timestamp = tm\<rparr>],
               updatedAt := tu\<rparr>"
  have k1: "currentChatId ?s1 = Some k" using assms by simp
  have m1: "map_of (chats ?s1) = (map_of (chats s))(k \<mapsto> ?c1)"
    using assms by (rule addMessageLocally_map_of)
  have c1: "map_of (chats ?s1) k = Some ?c1" by (simp add: m1)
  show ?thesis
    by (rule exI [of _ str]) (auto simp: r True title_begin_map_of [OF k1 c1] m1)
next
  case False
  from resume_failed [OF False, of msg tm tu s] obtain str where
    r: "sendMessage_resume msg resp tm tu s
          = (sendMessage_end (addMessageLocally Ai str tm tu s), Returned)"
    by blast
  show ?thesis
    by (rule exI [of _ str]) (simp add: r False addMessageLocally_map_of [OF assms])
qed

lemma resume_absent:
  assumes "currentChat s = None"
  shows "chats (fst (sendMessage_resume msg resp tm tu s)) = chats s"
proof -
  from assms have a: "currentChatId s = None \<or> (\<exists>k. currentChatId s = Some k \<and> map_of (chats s) k = None)"
    by (auto simp: currentChat_def split: option.splits)
  show ?thesis
  proof (cases "exchange_succeeded resp")
    case True
    from resume_succeeded [OF True, of msg tm tu s] show ?thesis
      using a by (auto simp: addMessageLocally_absent title_begin_absent)
  next
    case False
    from resume_failed [OF False, of msg tm tu s] show ?thesis
      using a by (auto simp: addMessageLocally_absent)
  qed
qed

text \<open>The example states, evaluated.\<close>

lemma trim_why: "trim ''  why?  '' = ''why?''"
  by (simp add: trim_def is_space_def)

lemma trim_asking: "trim (inputValue asking) = ''why?''"
  by (simp add: asking_def trim_why)

lemma trim_first_question:
  "trim (inputValue first_question)
     = ''Explain recursion in programming with a long example text exceeding forty chars''"
  by (simp add: first_question_def trim_def is_space_def)

lemma trim_blank: "trim ''   '' = []"
  by (simp add: trim_def is_space_def)

lemma asking_current:
  "currentChatId asking = Some ''a''"
  "map_of (chats asking) ''a''
     = Some (a_chat ''a'' [a_message User ''hi'' 38, a_message Ai ''hello'' 40] 10 40)"
  "isLoading asking = False"
  by (simp_all add: asking_def three_chats_def new_app_def)

lemma first_question_current:
  "currentChatId first_question = Some ''c''"
  "map_of (chats first_question) ''c'' = Some (a_chat ''c'' [] 30 30)"
  "isLoading first_question = False"
  by (simp_all add: first_question_def three_chats_def new_app_def)

lemma switched_away_eq:
  "switched_away =
     three_chats\<lparr>currentChatId := Some ''b'',
       chats := [(''a'', a_chat ''a'' [a_message User ''hi'' 38, a_message Ai ''hello'' 40,
                                      \<lparr>mtype = User, content = ''why?'', timestamp = 41\<rparr>] 10 40
                          \<lparr>updatedAt := 42\<rparr>),
                 (''b'', a_chat ''b'' [] 20 20),
                 (''c'', a_chat ''c'' [] 30 30)],
       isLoading := True,
       requests := [PostAsk ''why?'' (Some ''a''), GetHistory ''b'']\<rparr>"
  by (simp add: switched_away_def switchToChat_resume_def switchToChat_finish_def
      loadChatHistory_resume_def history_messages_def switchToChat_begin_def
      loadChatHistory_begin_def sendMessage_begin_def Let_def trim_why
      addMessageLocally_def clearInput_def issue_def asking_def three_chats_def new_app_def
      a_chat_def a_message_def)

text \<open>
  C6: \<^verbatim>\<open>sendMessage\<close> returns at once, leaving the whole state as it is (no message
  appended, no request issued), when the trimmed input is empty or a send is in flight.
  The guard is the one field \<^verbatim>\<open>isLoading\<close> of the application: an accepted send sets
  it, and a second send is then rejected whatever was typed and whichever conversation
  is current. The flag is cleared on every outcome: a rejected request and an
  application-level error clear it in the continuation itself, which then returns; a
  success clears it once the memory request that it awaits has settled, whatever that
  response is.
\<close>

theorem sendMessage_single_flight:
  "(trim (inputValue s) = [] \<or> isLoading s \<longrightarrow> sendMessage_begin tm tu s = (s, Returned))
   \<and> (trim (inputValue s) \<noteq> [] \<and> \<not> isLoading s \<longrightarrow>
        isLoading (fst (sendMessage_begin tm tu s))
        \<and> snd (sendMessage_begin tm tu s) = Awaiting (trim (inputValue s))
        \<and> requests (fst (sendMessage_begin tm tu s))
            = requests s @ [PostAsk (trim (inputValue s)) (currentChatId s)]
        \<and> sendMessage_begin tm2 tu2
             ((fst (sendMessage_begin tm tu s))\<lparr>inputValue := typed, currentChatId := other\<rparr>)
            = ((fst (sendMessage_begin tm tu s))\<lparr>inputValue := typed, currentChatId := other\<rparr>,
               Returned))
   \<and> isLoading (sendMessage_complete msg resp mem tm' tu' s') = False
   \<and> (\<not> exchange_succeeded resp \<longrightarrow>
        snd (sendMessage_resume msg resp tm' tu' s') = Returned
        \<and> isLoading (fst (sendMessage_resume msg resp tm' tu' s')) = False)
   \<and> isLoading (sendMessage_finish mem s'') = False"
proof (intro conjI impI)
  show "sendMessage_begin tm tu s = (s, Returned)" if "trim (inputValue s) = [] \<or> isLoading s"
    using that by (auto simp: sendMessage_begin_def)
next
  assume a: "trim (inputValue s) \<noteq> [] \<and> \<not> isLoading s"
  then have b: "sendMessage_begin tm tu s
     = (issue [PostAsk (trim (inputValue s)) (currentChatId s)]
          (clearInput (addMessageLocally User (trim (inputValue s)) tm tu (s\<lparr>isLoading := True\<rparr>))),
        Awaiting (trim (inputValue s)))"
    by (simp add: sendMessage_begin_accepted)
  show l: "isLoading (fst (sendMessage_begin tm tu s))"
    by (simp add: b clearInput_def)
  show "snd (sendMessage_begin tm tu s) = Awaiting (trim (inputValue s))"
    by (simp add: b)
  show "requests (fst (sendMessage_begin tm tu s))
            = requests s @ [PostAsk (trim (inputValue s)) (currentChatId s)]"
    by (simp add: b clearInput_def)
  show "sendMessage_begin tm2 tu2
             ((fst (sendMessage_begin tm tu s))\<lparr>inputValue := typed, currentChatId := other\<rparr>)
            = ((fst (sendMessage_begin tm tu s))\<lparr>inputValue := typed, currentChatId := other\<rparr>,
               Returned)"
    using l by (simp add: sendMessage_begin_def [of tm2 tu2])
next
  show "isLoading (sendMessage_complete msg resp mem tm' tu' s') = False"
    by (rule sendMessage_complete_isLoading)
next
  assume f: "\<not> exchange_succeeded resp"
  from resume_failed [OF f, of msg tm' tu' s']
  show "snd (sendMessage_resume msg resp tm' tu' s') = Returned"
    and "isLoading (fst (sendMessage_resume msg resp tm' tu' s')) = False"
    by auto
next
  show "isLoading (sendMessage_finish mem s'') = False"
    by (simp add: sendMessage_finish_def)
qed

theorem sendMessage_single_flight_witness:
  "sendMessage_begin 41 42 (three_chats\<lparr>inputValue := ''   ''\<rparr>)
     = (three_chats\<lparr>inputValue := ''   ''\<rparr>, Returned)
   \<and> snd (sendMessage_begin 41 42 asking) = Awaiting ''why?''
   \<and> sendMessage_begin 43 44
        ((fst (sendMessage_begin 41 42 asking))\<lparr>inputValue := ''again'', currentChatId := Some ''b''\<rparr>)
      = ((fst (sendMessage_begin 41 42 asking))\<lparr>inputValue := ''again'', currentChatId := Some ''b''\<rparr>,
         Returned)
   \<and> isLoading (sendMessage_complete ''why?'' (Body False \<lparr>response_text = None, error_text = Some ''busy''\<rparr>)
                  Rejected 45 46 (fst (sendMessage_begin 41 42 asking))) = False
   \<and> snd (sendMessage_resume ''why?'' Rejected 45 46 (fst (sendMessage_begin 41 42 asking))) = Returned"
proof -
  let ?blank = "three_chats\<lparr>inputValue := ''   ''\<rparr>"
  let ?err = "Body False \<lparr>response_text = None, error_text = Some ''busy''\<rparr>"
  have blank: "trim (inputValue ?blank) = [] \<or> isLoading ?blank"
    by (simp add: trim_blank)
  have ok: "trim (inputValue asking) \<noteq> [] \<and> \<not> isLoading asking"
    by (simp add: trim_asking asking_current)
  have failed: "\<not> exchange_succeeded (Rejected :: ask_data response)"
    by (simp add: exchange_succeeded_def)
  from sendMessage_single_flight [where s = ?blank and tm = 41 and tu = 42] blank
  have a: "sendMessage_begin 41 42 ?blank = (?blank, Returned)"
    by blast
  note t = sendMessage_single_flight [where s = asking and tm = 41 and tu = 42
      and ?tm2.0 = 43 and ?tu2.0 = 44 and typed = "''again''" and other = "Some ''b''"
      and msg = "''why?''" and tm' = 45 and tu' = 46 and s' = "fst (sendMessage_begin 41 42 asking)"]
  from t [where resp = ?err] ok
  have b: "snd (sendMessage_begin 41 42 asking) = Awaiting (trim (inputValue asking))"
    and c: "sendMessage_begin 43 44
        ((fst (sendMessage_begin 41 42 asking))\<lparr>inputValue := ''again'', currentChatId := Some ''b''\<rparr>)
      = ((fst (sendMessage_begin 41 42 asking))\<lparr>inputValue := ''again'', currentChatId := Some ''b''\<rparr>,
         Returned)"
    and d: "isLoading (sendMessage_complete ''why?'' ?err Rejected 45 46
                         (fst (sendMessage_begin 41 42 asking))) = False"
    by blast+
  from t [where resp = Rejected] failed
  have e: "snd (sendMessage_resume ''why?'' Rejected 45 46 (fst (sendMessage_begin 41 42 asking))) = Returned"
    by blast
  show ?thesis
    using a b c d e by (simp add: trim_asking)
qed

text \<open>
  C7, as claimed: after every failed exchange the user's message is in the conversation
  and is followed by exactly one synthetic assistant message. In \<open>switched_away\<close> the
  question was sent from \<open>a\<close> and \<open>b\<close> has become current meanwhile; when the request is
  then rejected, the synthetic message goes to \<open>b\<close>, and in \<open>a\<close> the user's message is
  the last one, followed by nothing.
\<close>

theorem failed_exchange_elsewhere_counterexample:
  "snd (sendMessage_begin 41 42 asking) = Awaiting ''why?''
   \<and> \<not> exchange_succeeded Rejected
   \<and> map_option (\<lambda>c. map mtype (messages c))
       (map_of (chats (sendMessage_complete ''why?'' Rejected Rejected 45 46 switched_away)) ''a'')
     = Some [User, Ai, User]
   \<and> map_option (\<lambda>c. map mtype (messages c))
       (map_of (chats (sendMessage_complete ''why?'' Rejected Rejected 45 46 switched_away)) ''b'')
     = Some [Ai]"
  by (simp add: switched_away_eq sendMessage_complete_def sendMessage_resume_def
      sendMessage_end_def addMessageLocally_def exchange_succeeded_def
      sendMessage_begin_def Let_def trim_why
      three_chats_def new_app_def a_chat_def a_message_def asking_def)

text \<open>
  C7, amended: when the exchange fails (the request is rejected, or the response is not
  a success) while the conversation the message was sent from is current and is as the
  send left it, that conversation then holds its earlier messages, the user's message
  and exactly one assistant message after it. Whatever the state when the response is
  handled, the continuation removes nothing: every conversation keeps the messages it
  had, in front of anything added.
\<close>

theorem failed_exchange_keeps_user_turn:
  assumes "currentChatId s = Some k" and "map_of (chats s) k = Some c"
    and "trim (inputValue s) \<noteq> []" and "\<not> isLoading s"
    and "\<not> exchange_succeeded resp"
    and "currentChatId s' = Some k"
    and "map_of (chats s') k = map_of (chats (fst (sendMessage_begin tm tu s))) k"
  shows "(\<exists>str. map_option messages
                  (map_of (chats (sendMessage_complete (trim (inputValue s)) resp mem tm' tu' s')) k)
                = Some (messages c @
                         [\<lparr>mtype = User, content = trim (inputValue s), timestamp = tm\<rparr>,
                          \<lparr>mtype = Ai, content = str, timestamp = tm'\<rparr>]))
         \<and> (\<forall>s'' j cj. map_of (chats s'') j = Some cj \<longrightarrow>
              (\<exists>cj'. map_of (chats (sendMessage_complete (trim (inputValue s)) resp mem tm' tu' s'')) j
                        = Some cj'
                 \<and> take (length (messages cj)) (messages cj') = messages cj))"
proof (intro conjI allI impI)
  let ?msg = "trim (inputValue s)"
  let ?c1 = "c\<lparr>messages := messages c @ [\<lparr>mtype = User, content = ?msg, timestamp = tm\<rparr>],
               updatedAt := tu\<rparr>"
  have c1: "map_of (chats s') k = Some ?c1"
    using assms by (simp add: sendMessage_begin_map_of)
  from resume_map_of [OF assms(6) c1, of ?msg resp tm' tu'] assms(5)
  show "\<exists>str. map_option messages
                  (map_of (chats (sendMessage_complete ?msg resp mem tm' tu' s')) k)
                = Some (messages c @
                         [\<lparr>mtype = User, content = ?msg, timestamp = tm\<rparr>,
                          \<lparr>mtype = Ai, content = str, timestamp = tm'\<rparr>])"
    by (auto simp: sendMessage_complete_chats)
next
  fix s'' :: app and j :: string and cj :: chat
  let ?msg = "trim (inputValue s)"
  assume j: "map_of (chats s'') j = Some cj"
  show "\<exists>cj'. map_of (chats (sendMessage_complete ?msg resp mem tm' tu' s'')) j = Some cj'
                 \<and> take (length (messages cj)) (messages cj') = messages cj"
  proof (cases "currentChat s''")
    case None
    then show ?thesis
      using j by (simp add: sendMessage_complete_chats resume_absent)
  next
    case (Some c'')
    then obtain k'' where k: "currentChatId s'' = Some k''" "map_of (chats s'') k'' = Some c''"
      by (auto simp: currentChat_Some)
    from resume_map_of [OF k, of ?msg resp tm' tu'] j k show ?thesis
      by (cases "j = k''") (auto simp: sendMessage_complete_chats)
  qed
qed

theorem failed_exchange_keeps_user_turn_witness:
  "currentChatId asking = Some ''a''
   \<and> trim (inputValue asking) = ''why?''
   \<and> \<not> exchange_succeeded (Body True \<lparr>response_text = None, error_text = Some ''busy''\<rparr>)
   \<and> (\<exists>str. map_option messages
               (map_of (chats (sendMessage_complete ''why?''
                                 (Body True \<lparr>response_text = None, error_text = Some ''busy''\<rparr>)
                                 Rejected 45 46 (fst (sendMessage_begin 41 42 asking)))) ''a'')
             = Some ([a_message User ''hi'' 38, a_message Ai ''hello'' 40] @
                      [\<lparr>mtype = User, content = ''why?'', timestamp = 41\<rparr>,
                       \<lparr>mtype = Ai, content = str, timestamp = 45\<rparr>]))
   \<and> map_option (\<lambda>c. map content (messages c))
        (map_of (chats (sendMessage_complete ''why?''
                          (Body True \<lparr>response_text = None, error_text = Some ''busy''\<rparr>)
                          Rejected 45 46 (fst (sendMessage_begin 41 42 asking)))) ''a'')
      = Some [''hi'', ''hello'', ''why?'', ''busy'']
   \<and> map_of (chats switched_away) ''a''
      = Some (a_chat ''a'' [a_message User ''hi'' 38, a_message Ai ''hello'' 40,
                            \<lparr>mtype = User, content = ''why?'', timestamp = 41\<rparr>] 10 42)
   \<and> (\<exists>cj'. map_of (chats (sendMessage_complete ''why?''
                          (Body True \<lparr>response_text = None, error_text = Some ''busy''\<rparr>)
                          Rejected 45 46 switched_away)) ''a'' = Some cj'
         \<and> take 3 (messages cj')
             = [a_message User ''hi'' 38, a_message Ai ''hello'' 40,
                \<lparr>mtype = User, content = ''why?'', timestamp = 41\<rparr>])"
proof -
  let ?err = "Body True \<lparr>response_text = None, error_text = Some ''busy''\<rparr>"
  let ?s1 = "fst (sendMessage_begin 41 42 asking)"
  have inp: "trim (inputValue asking) \<noteq> []"
    by (simp add: trim_asking)
  have idle: "\<not> isLoading asking"
    by (simp add: asking_current)
  have failed: "\<not> exchange_succeeded ?err"
    by (simp add: exchange_succeeded_def or_default_def)
  have cur: "currentChatId ?s1 = Some ''a''"
    using sendMessage_begin_map_of(2) [OF asking_current(1,2) inp idle] .
  have same: "map_of (chats ?s1) ''a'' = map_of (chats (fst (sendMessage_begin 41 42 asking))) ''a''"
    by simp
  from failed_exchange_keeps_user_turn
         [OF asking_current(1,2) inp idle failed cur same, of Rejected 45 46]
  have a: "\<exists>str. map_option messages
               (map_of (chats (sendMessage_complete (trim (inputValue asking)) ?err
                                 Rejected 45 46 ?s1)) ''a'')
             = Some (messages (a_chat ''a'' [a_message User ''hi'' 38, a_message Ai ''hello'' 40] 10 40) @
                      [\<lparr>mtype = User, content = trim (inputValue asking), timestamp = 41\<rparr>,
                       \<lparr>mtype = Ai, content = str, timestamp = 45\<rparr>])"
    by blast
  have b: "map_option (\<lambda>c. map content (messages c))
        (map_of (chats (sendMessage_complete ''why?'' ?err Rejected 45 46 ?s1)) ''a'')
      = Some [''hi'', ''hello'', ''why?'', ''busy'']"
    by (simp add: sendMessage_complete_def sendMessage_resume_def sendMessage_end_def
        addMessageLocally_def or_default_def sendMessage_begin_def Let_def trim_why
        clearInput_def issue_def asking_def three_chats_def new_app_def a_chat_def a_message_def)
  have there: "map_of (chats switched_away) ''a''
      = Some (a_chat ''a'' [a_message User ''hi'' 38, a_message Ai ''hello'' 40,
                            \<lparr>mtype = User, content = ''why?'', timestamp = 41\<rparr>] 10 42)"
    by (simp add: switched_away_eq a_chat_def)
  note kept = failed_exchange_keeps_user_turn
         [OF asking_current(1,2) inp idle failed cur same, of Rejected 45 46,
          THEN conjunct2, THEN spec, THEN spec, THEN spec, THEN mp, OF there]
  have kept': "\<exists>cj'. map_of (chats (sendMessage_complete ''why?'' ?err
                          Rejected 45 46 switched_away)) ''a'' = Some cj'
         \<and> take 3 (messages cj')
             = [a_message User ''hi'' 38, a_message Ai ''hello'' 40,
                \<lparr>mtype = User, content = ''why?'', timestamp = 41\<rparr>]"
    using kept by (simp add: trim_asking a_chat_def numeral_3_eq_3)
  have first: "currentChatId asking = Some ''a''
   \<and> trim (inputValue asking) = ''why?''
   \<and> \<not> exchange_succeeded ?err
   \<and> (\<exists>str. map_option messages
               (map_of (chats (sendMessage_complete ''why?'' ?err Rejected 45 46 ?s1)) ''a'')
             = Some ([a_message User ''hi'' 38, a_message Ai ''hello'' 40] @
                      [\<lparr>mtype = User, content = ''why?'', timestamp = 41\<rparr>,
                       \<lparr>mtype = Ai, content = str, timestamp = 45\<rparr>]))"
    using a failed by (simp add: trim_asking asking_current a_chat_def)
  show ?thesis
    using first b there kept' by blast
qed

text \<open>
  The continuation again, with the text of the appended message and the requests it
  issues written out.
\<close>

lemma resume_map_of_text:
  assumes k: "currentChatId s = Some k" and c: "map_of (chats s) k = Some c"
  shows "map_of (chats (fst (sendMessage_resume msg resp tm tu s)))
           = (map_of (chats s))
               (k \<mapsto> (if exchange_succeeded resp \<and> length (messages c) + 1 \<le> 2
                       then c\<lparr>messages := messages c @
                                [\<lparr>mtype = Ai,
                                  content =
                                    (case resp of
                                       Rejected \<Rightarrow>
                                         ''Sorry, I couldn't connect to the server. Please check your connection and try again.''
                                     | Body ok d \<Rightarrow>
                                         if ok \<and> or_default (response_text d) [] \<noteq> []
                                         then or_default (response_text d) []
                                         else or_default (error_text d)
                                                ''Sorry, I encountered an error. Please try again.''),
                                  timestamp = tm\<rparr>],
                              updatedAt := tu, title := derivedTitle msg\<rparr>
                       else c\<lparr>messages := messages c @
                                [\<lparr>mtype = Ai,
                                  content =
                                    (case resp of
                                       Rejected \<Rightarrow>
                                         ''Sorry, I couldn't connect to the server. Please check your connection and try again.''
                                     | Body ok d \<Rightarrow>
                                         if ok \<and> or_default (response_text d) [] \<noteq> []
                                         then or_default (response_text d) []
                                         else or_default (error_text d)
                                                ''Sorry, I encountered an error. Please try again.''),
                                  timestamp = tm\<rparr>],
                              updatedAt := tu\<rparr>))"
proof (cases resp)
  case Rejected
  then show ?thesis
    by (simp add: sendMessage_resume_def exchange_succeeded_def addMessageLocally_map_of [OF k c])
next
  case (Body ok d)
  show ?thesis
  proof (cases "ok \<and> or_default (response_text d) [] \<noteq> []")
    case False
    then show ?thesis
      using Body
      by (auto simp: sendMessage_resume_def exchange_succeeded_def addMessageLocally_map_of [OF k c])
  next
    case True
    let ?r = "or_default (response_text d) []"
    let ?s1 = "addMessageLocally Ai ?r tm tu s"
    let ?c1 = "c\<lparr>messages := messages c @ [\<lparr>mtype = Ai, content = ?r, timestamp = tm\<rparr>],
                 updatedAt := tu\<rparr>"
    have k1: "currentChatId ?s1 = Some k" using k by simp
    have m1: "map_of (chats ?s1) = (map_of (chats s))(k \<mapsto> ?c1)"
      using k c by (rule addMessageLocally_map_of)
    have c1: "map_of (chats ?s1) k = Some ?c1" by (simp add: m1)
    have r: "fst (sendMessage_resume msg (Body True d) tm tu s)
               = loadUserMemory_begin (fst (updateChatTitleFromFirstMessage_begin msg ?s1))"
      using True by (simp add: sendMessage_resume_def Let_def)
    have ok: "exchange_succeeded (Body True d)"
      using True by (simp add: exchange_succeeded_def)
    show ?thesis
      using True by (auto simp: r ok Body title_begin_map_of [OF k1 c1] m1)
  qed
qed

lemma resume_requests:
  assumes k: "currentChatId s = Some k" and c: "map_of (chats s) k = Some c"
  shows "requests (fst (sendMessage_resume msg resp tm tu s))
           = requests s @
               (if exchange_succeeded resp
                then (if length (messages c) + 1 \<le> 2 then [PostChat k (derivedTitle msg)] else [])
                       @ [GetUserMemory]
                else [])"
proof (cases "exchange_succeeded resp")
  case False
  from resume_failed [OF False, of msg tm tu s] show ?thesis
    using False by auto
next
  case True
  from resume_succeeded [OF True, of msg tm tu s] obtain str where
    r: "sendMessage_resume msg resp tm tu s
          = (loadUserMemory_begin
               (fst (updateChatTitleFromFirstMessage_begin msg (addMessageLocally Ai str tm tu s))),
             Awaiting ())"
    by blast
  let ?s1 = "addMessageLocally Ai str tm tu s"
  let ?c1 = "c\<lparr>messages := messages c @ [\<lparr>mtype = Ai, content = str, timestamp = tm\<rparr>],
               updatedAt := tu\<rparr>"
  have k1: "currentChatId ?s1 = Some k" using k by simp
  have c1: "map_of (chats ?s1) k = Some ?c1"
    using k c by (simp add: addMessageLocally_map_of)
  have q: "requests ?s1 = requests s" by simp
  show ?thesis
    using True k1 c1 q
    by (simp add: r loadUserMemory_begin_def issue_def updateChatTitleFromFirstMessage_begin_def)
qed

text \<open>A send whose response is handled in the state the send left.\<close>

lemma title_after_exchange:
  assumes "currentChatId s = Some k" and "map_of (chats s) k = Some c"
    and "trim (inputValue s) \<noteq> []" and "\<not> isLoading s"
  shows "map_option title
           (map_of (chats (fst (sendMessage_resume (trim (inputValue s)) resp tm' tu'
                                  (fst (sendMessage_begin tm tu s))))) k)
           = Some (if exchange_succeeded resp \<and> length (messages c) + 2 \<le> 2
                   then derivedTitle (trim (inputValue s)) else title c)
         \<and> map_option (\<lambda>c'. length (messages c'))
             (map_of (chats (fst (sendMessage_resume (trim (inputValue s)) resp tm' tu'
                                    (fst (sendMessage_begin tm tu s))))) k)
           = Some (length (messages c) + 2)
         \<and> derivedTitle m = (if length m > 40 then take 40 m @ ''...'' else m)
         \<and> (\<forall>r s''. chats (updateChatTitleFromFirstMessage_resume r s'') = chats s'')
         \<and> (\<forall>s'' k'' c'' j. currentChatId s'' = Some k'' \<and> map_of (chats s'') k'' = Some c''
                \<and> length (messages c'') \<ge> 2 \<longrightarrow>
              map_option title (map_of (chats (fst (sendMessage_resume m resp tm' tu' s''))) j)
                = map_option title (map_of (chats s'') j))"
proof (intro conjI allI impI)
  let ?msg = "trim (inputValue s)"
  let ?s1 = "fst (sendMessage_begin tm tu s)"
  let ?c1 = "c\<lparr>messages := messages c @ [\<lparr>mtype = User, content = ?msg, timestamp = tm\<rparr>],
               updatedAt := tu\<rparr>"
  have k1: "currentChatId ?s1 = Some k" and c1: "map_of (chats ?s1) k = Some ?c1"
    using assms by (simp_all add: sendMessage_begin_map_of)
  from resume_map_of [OF k1 c1, of ?msg resp tm' tu']
  show "map_option title (map_of (chats (fst (sendMessage_resume ?msg resp tm' tu' ?s1))) k)
           = Some (if exchange_succeeded resp \<and> length (messages c) + 2 \<le> 2
                   then derivedTitle ?msg else title c)"
    by auto
  from resume_map_of [OF k1 c1, of ?msg resp tm' tu']
  show "map_option (\<lambda>c'. length (messages c'))
             (map_of (chats (fst (sendMessage_resume ?msg resp tm' tu' ?s1))) k)
           = Some (length (messages c) + 2)"
    by auto
next
  show "derivedTitle m = (if length m > 40 then take 40 m @ ''...'' else m)"
    by (simp add: derivedTitle_def)
next
  fix r :: "unit response" and s'' :: app
  show "chats (updateChatTitleFromFirstMessage_resume r s'') = chats s''"
    by (simp add: updateChatTitleFromFirstMessage_resume_def split: response.split)
next
  fix s'' :: app and k'' :: string and c'' :: chat and j :: string
  assume a: "currentChatId s'' = Some k'' \<and> map_of (chats s'') k'' = Some c''
                \<and> length (messages c'') \<ge> 2"
  then have k: "currentChatId s'' = Some k''" and c: "map_of (chats s'') k'' = Some c''"
    by simp_all
  from resume_map_of [OF k c, of m resp tm' tu'] a
  show "map_option title (map_of (chats (fst (sendMessage_resume m resp tm' tu' s''))) j)
          = map_option title (map_of (chats s'') j)"
    by (cases "j = k''") auto
qed

text \<open>Two more example states, evaluated.\<close>

lemma trim_hello: "trim ''hello'' = ''hello''"
  by (simp add: trim_def is_space_def)

lemma trim_long:
  "trim ''Explain recursion in programming with a long example text exceeding forty chars''
     = ''Explain recursion in programming with a long example text exceeding forty chars''"
  by (simp add: trim_def is_space_def)

lemma switched_from_first_eq:
  "switched_from_first =
     three_chats\<lparr>currentChatId := Some ''b'',
       chats := [(''a'', a_chat ''a'' [a_message User ''hi'' 38, a_message Ai ''hello'' 40] 10 40),
                 (''b'', a_chat ''b'' [] 20 20),
                 (''c'', a_chat ''c''
                    [\<lparr>mtype = User,
                      content = ''Explain recursion in programming with a long example text exceeding forty chars'',
                      timestamp = 41\<rparr>] 30 42)],
       isLoading := True,
       requests := [PostAsk ''Explain recursion in programming with a long example text exceeding forty chars'' (Some ''c''),
                    GetHistory ''b'']\<rparr>"
  by (simp add: switched_from_first_def switchToChat_resume_def switchToChat_finish_def
      loadChatHistory_resume_def history_messages_def switchToChat_begin_def
      loadChatHistory_begin_def sendMessage_begin_def Let_def trim_long
      addMessageLocally_def clearInput_def issue_def first_question_def three_chats_def
      new_app_def a_chat_def a_message_def)

lemma plans_unloaded_eq:
  "plans_unloaded =
     new_app\<lparr>currentChatId := Some ''p'',
       chats := [(''p'', \<lparr>cid = ''p'', title = ''Plans'', messages = [], createdAt = 100,
                          updatedAt = 200, lastMessage = Some ''See you''\<rparr>)],
       inputValue := ''hello'',
       requests := [GetHistory ''p'']\<rparr>"
  by (simp add: plans_unloaded_def loadChatHistory_resume_def initializeApp_afterListing_def
      mostRecentChat_def loadChatHistory_begin_def loadChatsFromBackend_resume_def hydrate_def
      or_default_def issue_def new_app_def)

text \<open>
  C8, as claimed: the title is derived after the first exchange of a conversation only,
  from the user's message, and later exchanges never overwrite it. In \<open>plans_unloaded\<close>
  the conversation comes from the listing with the title Plans and a last message, and
  its history could not be fetched, so its local message list is empty: the next
  exchange, which is not its first, replaces the title by the message and posts the new
  title. In \<open>switched_from_first\<close> the first message of \<open>c\<close> was sent and \<open>b\<close> became
  current before the answer: \<open>c\<close> keeps its title after its first exchange, and \<open>b\<close>,
  in which no message was sent, gets a title derived from the message sent in \<open>c\<close>.
\<close>

theorem title_derivation_counterexample:
  "map_option title (map_of (chats plans_unloaded) ''p'') = Some ''Plans''
   \<and> map_option lastMessage (map_of (chats plans_unloaded) ''p'') = Some (Some ''See you'')
   \<and> map_option title
        (map_of (chats (fst (sendMessage_resume ''hello''
             (Body True \<lparr>response_text = Some ''Hi.'', error_text = None\<rparr>) 505 506
             (fst (sendMessage_begin 503 504 plans_unloaded))))) ''p'')
      = Some ''hello''
   \<and> requests (fst (sendMessage_resume ''hello''
             (Body True \<lparr>response_text = Some ''Hi.'', error_text = None\<rparr>) 505 506
             (fst (sendMessage_begin 503 504 plans_unloaded))))
      = [GetHistory ''p'', PostAsk ''hello'' (Some ''p''), PostChat ''p'' ''hello'', GetUserMemory]
   \<and> snd (sendMessage_begin 41 42 first_question)
      = Awaiting ''Explain recursion in programming with a long example text exceeding forty chars''
   \<and> map_option (\<lambda>c. (title c, map mtype (messages c)))
        (map_of (chats (fst (sendMessage_resume
             ''Explain recursion in programming with a long example text exceeding forty chars''
             (Body True \<lparr>response_text = Some ''Sure.'', error_text = None\<rparr>) 45 46 switched_from_first))) ''c'')
      = Some (''New Conversation'', [User])
   \<and> map_option (\<lambda>c. (title c, map mtype (messages c)))
        (map_of (chats (fst (sendMessage_resume
             ''Explain recursion in programming with a long example text exceeding forty chars''
             (Body True \<lparr>response_text = Some ''Sure.'', error_text = None\<rparr>) 45 46 switched_from_first))) ''b'')
      = Some (''Explain recursion in programming with a ...'', [Ai])"
  by (simp add: plans_unloaded_eq switched_from_first_eq sendMessage_resume_def
      sendMessage_begin_def Let_def trim_hello trim_long
      updateChatTitleFromFirstMessage_begin_def derivedTitle_def loadUserMemory_begin_def
      addMessageLocally_def clearInput_def issue_def or_default_def
      first_question_def three_chats_def new_app_def a_chat_def a_message_def)

text \<open>
  C8, amended: the title is derived when a successful exchange response is handled, for
  the conversation that is current at that moment, and exactly when that conversation
  then holds at most 2 local messages, the reply included: its title becomes the sent
  message, or the first 40 characters of it followed by "..." when it is longer than 40,
  the new title is posted to the backend, and no other conversation changes. A failed
  exchange, a response handled with no current conversation, and a response handled
  while the current conversation already holds 2 local messages or more change no
  title. So a send whose response is handled in the state the send left, from a
  conversation with \<open>n\<close> local messages, leaves \<open>n + 2\<close> messages and derives the title
  exactly when the exchange succeeded and \<open>n + 2 \<le> 2\<close>, whatever title the conversation
  had. What the title request returns changes nothing in the store, so the local title
  stays when that request fails.
\<close>

theorem title_derived_at_response:
  "(currentChatId s = Some k \<and> map_of (chats s) k = Some c \<longrightarrow>
      map_option title (map_of (chats (fst (sendMessage_resume msg resp tm tu s))) k)
        = Some (if exchange_succeeded resp \<and> length (messages c) + 1 \<le> 2
                then derivedTitle msg else title c)
      \<and> (\<forall>j. j \<noteq> k \<longrightarrow>
            map_of (chats (fst (sendMessage_resume msg resp tm tu s))) j = map_of (chats s) j)
      \<and> requests (fst (sendMessage_resume msg resp tm tu s))
          = requests s @
              (if exchange_succeeded resp
               then (if length (messages c) + 1 \<le> 2 then [PostChat k (derivedTitle msg)] else [])
                      @ [GetUserMemory]
               else []))
   \<and> (currentChat s = None \<longrightarrow>
        chats (fst (sendMessage_resume msg resp tm tu s)) = chats s)
   \<and> (currentChatId s0 = Some k0 \<and> map_of (chats s0) k0 = Some c0
        \<and> trim (inputValue s0) \<noteq> [] \<and> \<not> isLoading s0 \<longrightarrow>
        map_option title
          (map_of (chats (fst (sendMessage_resume (trim (inputValue s0)) resp tm tu
                                 (fst (sendMessage_begin tm0 tu0 s0))))) k0)
          = Some (if exchange_succeeded resp \<and> length (messages c0) + 2 \<le> 2
                  then derivedTitle (trim (inputValue s0)) else title c0)
        \<and> map_option (\<lambda>c'. length (messages c'))
            (map_of (chats (fst (sendMessage_resume (trim (inputValue s0)) resp tm tu
                                   (fst (sendMessage_begin tm0 tu0 s0))))) k0)
          = Some (length (messages c0) + 2))
   \<and> derivedTitle m = (if length m > 40 then take 40 m @ ''...'' else m)
   \<and> (\<forall>r s''. chats (updateChatTitleFromFirstMessage_resume r s'') = chats s'')
   \<and> (\<forall>s'' k'' c'' j. currentChatId s'' = Some k'' \<and> map_of (chats s'') k'' = Some c''
          \<and> length (messages c'') \<ge> 2 \<longrightarrow>
        map_option title (map_of (chats (fst (sendMessage_resume m resp tm tu s''))) j)
          = map_option title (map_of (chats s'') j))"
proof (intro conjI impI)
  assume a: "currentChatId s = Some k \<and> map_of (chats s) k = Some c"
  then have k: "currentChatId s = Some k" and c: "map_of (chats s) k = Some c"
    by simp_all
  from resume_map_of [OF k c, of msg resp tm tu]
  show "map_option title (map_of (chats (fst (sendMessage_resume msg resp tm tu s))) k)
        = Some (if exchange_succeeded resp \<and> length (messages c) + 1 \<le> 2
                then derivedTitle msg else title c)"
    by auto
  from resume_map_of [OF k c, of msg resp tm tu]
  show "\<forall>j. j \<noteq> k \<longrightarrow>
            map_of (chats (fst (sendMessage_resume msg resp tm tu s))) j = map_of (chats s) j"
    by auto
  show "requests (fst (sendMessage_resume msg resp tm tu s))
          = requests s @
              (if exchange_succeeded resp
               then (if length (messages c) + 1 \<le> 2 then [PostChat k (derivedTitle msg)] else [])
                      @ [GetUserMemory]
               else [])"
    using k c by (rule resume_requests)
next
  assume "currentChat s = None"
  then show "chats (fst (sendMessage_resume msg resp tm tu s)) = chats s"
    by (rule resume_absent)
next
  assume a: "currentChatId s0 = Some k0 \<and> map_of (chats s0) k0 = Some c0
        \<and> trim (inputValue s0) \<noteq> [] \<and> \<not> isLoading s0"
  then have h: "currentChatId s0 = Some k0" "map_of (chats s0) k0 = Some c0"
      "trim (inputValue s0) \<noteq> []" "\<not> isLoading s0"
    by simp_all
  note t = title_after_exchange [OF h, where resp = resp and tm' = tm and tu' = tu
      and tm = tm0 and tu = tu0]
  show "map_option title
          (map_of (chats (fst (sendMessage_resume (trim (inputValue s0)) resp tm tu
                                 (fst (sendMessage_begin tm0 tu0 s0))))) k0)
          = Some (if exchange_succeeded resp \<and> length (messages c0) + 2 \<le> 2
                  then derivedTitle (trim (inputValue s0)) else title c0)"
    by (rule t [THEN conjunct1])
  show "map_option (\<lambda>c'. length (messages c'))
            (map_of (chats (fst (sendMessage_resume (trim (inputValue s0)) resp tm tu
                                   (fst (sendMessage_begin tm0 tu0 s0))))) k0)
          = Some (length (messages c0) + 2)"
    by (rule t [THEN conjunct2, THEN conjunct1])
next
  show "derivedTitle m = (if length m > 40 then take 40 m @ ''...'' else m)"
    by (simp add: derivedTitle_def)
next
  show "\<forall>r s''. chats (updateChatTitleFromFirstMessage_resume r s'') = chats s''"
    by (simp add: updateChatTitleFromFirstMessage_resume_def split: response.split)
next
  show "\<forall>s'' k'' c'' j. currentChatId s'' = Some k'' \<and> map_of (chats s'') k'' = Some c''
          \<and> length (messages c'') \<ge> 2 \<longrightarrow>
        map_option title (map_of (chats (fst (sendMessage_resume m resp tm tu s''))) j)
          = map_option title (map_of (chats s'') j)"
  proof (intro allI impI)
    fix s'' :: app and k'' :: string and c'' :: chat and j :: string
    assume a: "currentChatId s'' = Some k'' \<and> map_of (chats s'') k'' = Some c''
                \<and> length (messages c'') \<ge> 2"
    then have k: "currentChatId s'' = Some k''" and c: "map_of (chats s'') k'' = Some c''"
      by simp_all
    from resume_map_of [OF k c, of m resp tm tu] a
    show "map_option title (map_of (chats (fst (sendMessage_resume m resp tm tu s''))) j)
            = map_option title (map_of (chats s'') j)"
      by (cases "j = k''") auto
  qed
qed

theorem title_derived_at_response_witness:
  "map_option title (map_of (chats (fst (sendMessage_resume ''Explain recursion in programming with a long example text exceeding forty chars''
          (Body True \<lparr>response_text = Some ''Sure.'', error_text = None\<rparr>) 45 46 switched_from_first))) ''b'')
      = Some ''Explain recursion in programming with a ...''
   \<and> map_of (chats (fst (sendMessage_resume ''Explain recursion in programming with a long example text exceeding forty chars''
          (Body True \<lparr>response_text = Some ''Sure.'', error_text = None\<rparr>) 45 46 switched_from_first))) ''c''
      = map_of (chats switched_from_first) ''c''
   \<and> requests (fst (sendMessage_resume ''Explain recursion in programming with a long example text exceeding forty chars''
          (Body True \<lparr>response_text = Some ''Sure.'', error_text = None\<rparr>) 45 46 switched_from_first))
      = [PostAsk ''Explain recursion in programming with a long example text exceeding forty chars'' (Some ''c''),
         GetHistory ''b'', PostChat ''b'' ''Explain recursion in programming with a ...'', GetUserMemory]
   \<and> map_option title (map_of (chats (fst (sendMessage_resume ''Explain recursion in programming with a long example text exceeding forty chars''
          (Body True \<lparr>response_text = Some ''Sure.'', error_text = None\<rparr>) 45 46 (fst (sendMessage_begin 41 42 first_question))))) ''c'')
      = Some ''Explain recursion in programming with a ...''
   \<and> map_option title
       (map_of (chats (fst (sendMessage_resume ''why?''
          (Body True \<lparr>response_text = Some ''Because.'', error_text = None\<rparr>) 45 46 (fst (sendMessage_begin 41 42 asking))))) ''a'')
      = Some ''New Conversation''
   \<and> map_option title
       (map_of (chats (fst (sendMessage_resume ''again''
          (Body True \<lparr>response_text = Some ''Because.'', error_text = None\<rparr>) 45 46 (fst (sendMessage_begin 41 42 asking))))) ''c'')
      = map_option title (map_of (chats (fst (sendMessage_begin 41 42 asking))) ''c'')
   \<and> chats (fst (sendMessage_resume ''why?''
          (Body True \<lparr>response_text = Some ''Because.'', error_text = None\<rparr>) 45 46 (three_chats\<lparr>currentChatId := Some ''gone''\<rparr>)))
      = chats three_chats"
proof -
  have cur: "currentChatId switched_from_first = Some ''b''
      \<and> map_of (chats switched_from_first) ''b'' = Some (a_chat ''b'' [] 20 20)"
    by (simp add: switched_from_first_eq)
  have req: "requests switched_from_first
      = [PostAsk ''Explain recursion in programming with a long example text exceeding forty chars'' (Some ''c''),
         GetHistory ''b'']"
    by (simp add: switched_from_first_eq)
  have ne: "''c'' \<noteq> ''b''"
    by simp
  have ok1: "exchange_succeeded (Body True \<lparr>response_text = Some ''Sure.'', error_text = None\<rparr>)"
    and ok2: "exchange_succeeded (Body True \<lparr>response_text = Some ''Because.'', error_text = None\<rparr>)"
    by (simp_all add: exchange_succeeded_def or_default_def)
  note g = title_derived_at_response [where s = switched_from_first and k = "''b''"
      and c = "a_chat ''b'' [] 20 20"
      and msg = "''Explain recursion in programming with a long example text exceeding forty chars''"
      and resp = "Body True \<lparr>response_text = Some ''Sure.'', error_text = None\<rparr>" and tm = 45 and tu = 46,
      THEN conjunct1, THEN mp, OF cur]
  have f1: "map_option title (map_of (chats (fst (sendMessage_resume ''Explain recursion in programming with a long example text exceeding forty chars''
          (Body True \<lparr>response_text = Some ''Sure.'', error_text = None\<rparr>) 45 46 switched_from_first))) ''b'')
      = Some ''Explain recursion in programming with a ...''"
    using g [THEN conjunct1] by (simp add: ok1 a_chat_def derivedTitle_def)
  have f2: "map_of (chats (fst (sendMessage_resume ''Explain recursion in programming with a long example text exceeding forty chars''
          (Body True \<lparr>response_text = Some ''Sure.'', error_text = None\<rparr>) 45 46 switched_from_first))) ''c''
      = map_of (chats switched_from_first) ''c''"
    by (rule g [THEN conjunct2, THEN conjunct1, THEN spec, THEN mp, OF ne])
  have f3: "requests (fst (sendMessage_resume ''Explain recursion in programming with a long example text exceeding forty chars''
          (Body True \<lparr>response_text = Some ''Sure.'', error_text = None\<rparr>) 45 46 switched_from_first))
      = [PostAsk ''Explain recursion in programming with a long example text exceeding forty chars'' (Some ''c''),
         GetHistory ''b'', PostChat ''b'' ''Explain recursion in programming with a ...'', GetUserMemory]"
    using g [THEN conjunct2, THEN conjunct2] by (simp add: ok1 req a_chat_def derivedTitle_def)
  have h1: "currentChatId first_question = Some ''c''
      \<and> map_of (chats first_question) ''c'' = Some (a_chat ''c'' [] 30 30)
      \<and> trim (inputValue first_question) \<noteq> [] \<and> \<not> isLoading first_question"
    by (simp add: first_question_current trim_first_question)
  have h2: "currentChatId asking = Some ''a''
      \<and> map_of (chats asking) ''a''
          = Some (a_chat ''a'' [a_message User ''hi'' 38, a_message Ai ''hello'' 40] 10 40)
      \<and> trim (inputValue asking) \<noteq> [] \<and> \<not> isLoading asking"
    by (simp add: asking_current trim_asking)
  note q1 = title_derived_at_response [where ?s0.0 = first_question and ?k0.0 = "''c''"
      and ?c0.0 = "a_chat ''c'' [] 30 30"
      and resp = "Body True \<lparr>response_text = Some ''Sure.'', error_text = None\<rparr>" and tm = 45 and tu = 46
      and ?tm0.0 = 41 and ?tu0.0 = 42,
      THEN conjunct2, THEN conjunct2, THEN conjunct1, THEN mp, OF h1, THEN conjunct1]
  note q2 = title_derived_at_response [where ?s0.0 = asking and ?k0.0 = "''a''"
      and ?c0.0 = "a_chat ''a'' [a_message User ''hi'' 38, a_message Ai ''hello'' 40] 10 40"
      and resp = "Body True \<lparr>response_text = Some ''Because.'', error_text = None\<rparr>" and tm = 45 and tu = 46
      and ?tm0.0 = 41 and ?tu0.0 = 42,
      THEN conjunct2, THEN conjunct2, THEN conjunct1, THEN mp, OF h2, THEN conjunct1]
  have f4: "map_option title (map_of (chats (fst (sendMessage_resume ''Explain recursion in programming with a long example text exceeding forty chars''
          (Body True \<lparr>response_text = Some ''Sure.'', error_text = None\<rparr>) 45 46 (fst (sendMessage_begin 41 42 first_question))))) ''c'')
      = Some ''Explain recursion in programming with a ...''"
    using q1 by (simp add: ok1 trim_first_question a_chat_def derivedTitle_def)
  have f5: "map_option title
       (map_of (chats (fst (sendMessage_resume ''why?''
          (Body True \<lparr>response_text = Some ''Because.'', error_text = None\<rparr>) 45 46 (fst (sendMessage_begin 41 42 asking))))) ''a'')
      = Some ''New Conversation''"
    using q2 by (simp add: ok2 trim_asking a_chat_def a_message_def)
  have later: "currentChatId (fst (sendMessage_begin 41 42 asking)) = Some ''a''
      \<and> map_of (chats (fst (sendMessage_begin 41 42 asking))) ''a''
          = Some ((a_chat ''a'' [a_message User ''hi'' 38, a_message Ai ''hello'' 40] 10 40)
               \<lparr>messages := messages (a_chat ''a'' [a_message User ''hi'' 38, a_message Ai ''hello'' 40] 10 40)
                    @ [\<lparr>mtype = User, content = trim (inputValue asking), timestamp = 41\<rparr>],
                 updatedAt := 42\<rparr>)
      \<and> length (messages ((a_chat ''a'' [a_message User ''hi'' 38, a_message Ai ''hello'' 40] 10 40)
               \<lparr>messages := messages (a_chat ''a'' [a_message User ''hi'' 38, a_message Ai ''hello'' 40] 10 40)
                    @ [\<lparr>mtype = User, content = trim (inputValue asking), timestamp = 41\<rparr>],
                 updatedAt := 42\<rparr>)) \<ge> 2"
    using sendMessage_begin_map_of [OF asking_current(1,2), of 41 42] asking_current(3)
    by (simp add: trim_asking a_chat_def)
  have f6: "map_option title
       (map_of (chats (fst (sendMessage_resume ''again''
          (Body True \<lparr>response_text = Some ''Because.'', error_text = None\<rparr>) 45 46 (fst (sendMessage_begin 41 42 asking))))) ''c'')
      = map_option title (map_of (chats (fst (sendMessage_begin 41 42 asking))) ''c'')"
    by (rule title_derived_at_response [where m = "''again''"
        and resp = "Body True \<lparr>response_text = Some ''Because.'', error_text = None\<rparr>" and tm = 45 and tu = 46,
        THEN conjunct2, THEN conjunct2, THEN conjunct2, THEN conjunct2, THEN conjunct2,
        THEN spec, THEN spec, THEN spec, THEN spec, THEN mp, OF later])
  have none: "currentChat (three_chats\<lparr>currentChatId := Some ''gone''\<rparr>) = None"
    by (simp add: currentChat_def three_chats_def new_app_def)
  have f7: "chats (fst (sendMessage_resume ''why?''
          (Body True \<lparr>response_text = Some ''Because.'', error_text = None\<rparr>) 45 46 (three_chats\<lparr>currentChatId := Some ''gone''\<rparr>)))
      = chats three_chats"
    using title_derived_at_response [where s = "three_chats\<lparr>currentChatId := Some ''gone''\<rparr>" and msg = "''why?''"
        and resp = "Body True \<lparr>response_text = Some ''Because.'', error_text = None\<rparr>" and tm = 45 and tu = 46,
        THEN conjunct2, THEN conjunct1, THEN mp, OF none]
    by simp
  show ?thesis
    by (intro conjI) (rule f1 f2 f3 f4 f5 f6 f7)+
qed

text \<open>
  C10: the continuation of \<^verbatim>\<open>sendMessage\<close> looks up \<^verbatim>\<open>currentChatId\<close> when the response
  is handled. For every state \<open>s\<close> at that moment and every outcome: when the current
  id names a conversation of the store, exactly one assistant message is appended to
  that conversation, and its text is the reply of a successful exchange, the error text
  of the response (or the fixed apology) of a failed one, and the fixed connection
  message when the request was rejected; every other conversation, the one the query
  was sent from included, is left as it is. When the current id names no conversation,
  the store is unchanged and the reply is dropped without any error being shown.
\<close>

theorem reply_goes_to_current:
  "(currentChat s = None \<longrightarrow>
      chats (sendMessage_complete msg resp mem tm tu s) = chats s
      \<and> shownErrors (sendMessage_complete msg resp mem tm tu s) = shownErrors s)
   \<and> (currentChatId s = Some k \<and> map_of (chats s) k = Some c \<longrightarrow>
        map_option messages (map_of (chats (sendMessage_complete msg resp mem tm tu s)) k)
          = Some (messages c @
                   [\<lparr>mtype = Ai,
                     content =
                       (case resp of
                         Rejected \<Rightarrow>
                           ''Sorry, I couldn't connect to the server. Please check your connection and try again.''
                       | Body ok d \<Rightarrow>
                           if ok \<and> or_default (response_text d) [] \<noteq> []
                           then or_default (response_text d) []
                           else or_default (error_text d)
                                  ''Sorry, I encountered an error. Please try again.''),
                     timestamp = tm\<rparr>])
        \<and> (\<forall>j. j \<noteq> k \<longrightarrow>
              map_of (chats (sendMessage_complete msg resp mem tm tu s)) j = map_of (chats s) j))"
proof (intro conjI impI)
  show "chats (sendMessage_complete msg resp mem tm tu s) = chats s" if "currentChat s = None"
    using that by (simp add: sendMessage_complete_chats resume_absent)
next
  show "shownErrors (sendMessage_complete msg resp mem tm tu s) = shownErrors s"
    by (rule sendMessage_complete_shownErrors)
next
  assume a: "currentChatId s = Some k \<and> map_of (chats s) k = Some c"
  then have k: "currentChatId s = Some k" and c: "map_of (chats s) k = Some c"
    by simp_all
  note t = resume_map_of_text [OF k c, of msg resp tm tu]
  show "map_option messages (map_of (chats (sendMessage_complete msg resp mem tm tu s)) k)
          = Some (messages c @
                   [\<lparr>mtype = Ai,
                     content =
                       (case resp of
                         Rejected \<Rightarrow>
                           ''Sorry, I couldn't connect to the server. Please check your connection and try again.''
                       | Body ok d \<Rightarrow>
                           if ok \<and> or_default (response_text d) [] \<noteq> []
                           then or_default (response_text d) []
                           else or_default (error_text d)
                                  ''Sorry, I encountered an error. Please try again.''),
                     timestamp = tm\<rparr>])"
    by (simp add: sendMessage_complete_chats t)
  show "\<forall>j. j \<noteq> k \<longrightarrow>
              map_of (chats (sendMessage_complete msg resp mem tm tu s)) j = map_of (chats s) j"
    by (simp add: sendMessage_complete_chats t)
qed

theorem reply_goes_to_current_witness:
  "currentChatId switched_away = Some ''b''
   \<and> requests switched_away = [PostAsk ''why?'' (Some ''a''), GetHistory ''b'']
   \<and> map_option messages (map_of (chats (sendMessage_complete ''why?''
          (Body True \<lparr>response_text = Some ''Because.'', error_text = None\<rparr>) Rejected 45 46 switched_away)) ''b'')
      = Some [\<lparr>mtype = Ai, content = ''Because.'', timestamp = 45\<rparr>]
   \<and> map_option messages (map_of (chats (sendMessage_complete ''why?''
          (Body False \<lparr>response_text = None, error_text = Some ''busy''\<rparr>) Rejected 45 46 switched_away)) ''b'')
      = Some [\<lparr>mtype = Ai, content = ''busy'', timestamp = 45\<rparr>]
   \<and> map_option messages (map_of (chats (sendMessage_complete ''why?''
          Rejected Rejected 45 46 switched_away)) ''b'')
      = Some [\<lparr>mtype = Ai,
                content = ''Sorry, I couldn't connect to the server. Please check your connection and try again.'',
                timestamp = 45\<rparr>]
   \<and> map_of (chats (sendMessage_complete ''why?''
          (Body True \<lparr>response_text = Some ''Because.'', error_text = None\<rparr>) Rejected 45 46 switched_away)) ''a''
      = map_of (chats switched_away) ''a''
   \<and> currentChat (three_chats\<lparr>currentChatId := Some ''gone''\<rparr>) = None
   \<and> chats (sendMessage_complete ''why?''
          (Body True \<lparr>response_text = Some ''Because.'', error_text = None\<rparr>) Rejected 45 46 (three_chats\<lparr>currentChatId := Some ''gone''\<rparr>))
      = chats three_chats
   \<and> shownErrors (sendMessage_complete ''why?''
          (Body True \<lparr>response_text = Some ''Because.'', error_text = None\<rparr>) Rejected 45 46 (three_chats\<lparr>currentChatId := Some ''gone''\<rparr>))
      = []"
proof -
  have cur: "currentChatId switched_away = Some ''b'' \<and>
             map_of (chats switched_away) ''b'' = Some (a_chat ''b'' [] 20 20)"
    by (simp add: switched_away_eq)
  have ne: "''a'' \<noteq> ''b''"
    by simp
  have none: "currentChat (three_chats\<lparr>currentChatId := Some ''gone''\<rparr>) = None"
    by (simp add: currentChat_def three_chats_def new_app_def)
  note tb = reply_goes_to_current [where s = switched_away and k = "''b''"
      and c = "a_chat ''b'' [] 20 20" and msg = "''why?''" and mem = Rejected
      and resp = "Body True \<lparr>response_text = Some ''Because.'', error_text = None\<rparr>"
      and tm = 45 and tu = 46, THEN conjunct2, THEN mp, OF cur]
  note te = reply_goes_to_current [where s = switched_away and k = "''b''"
      and c = "a_chat ''b'' [] 20 20" and msg = "''why?''" and mem = Rejected
      and resp = "Body False \<lparr>response_text = None, error_text = Some ''busy''\<rparr>"
      and tm = 45 and tu = 46, THEN conjunct2, THEN mp, OF cur]
  note tr = reply_goes_to_current [where s = switched_away and k = "''b''"
      and c = "a_chat ''b'' [] 20 20" and msg = "''why?''" and mem = Rejected
      and resp = "Rejected"
      and tm = 45 and tu = 46, THEN conjunct2, THEN mp, OF cur]
  note d = reply_goes_to_current [where s = "three_chats\<lparr>currentChatId := Some ''gone''\<rparr>" and msg = "''why?''"
      and resp = "Body True \<lparr>response_text = Some ''Because.'', error_text = None\<rparr>"
      and mem = Rejected and tm = 45 and tu = 46, THEN conjunct1, THEN mp, OF none]
  have f1: "currentChatId switched_away = Some ''b''"
    using cur by simp
  have f2: "requests switched_away = [PostAsk ''why?'' (Some ''a''), GetHistory ''b'']"
    by (simp add: switched_away_eq)
  have f3: "map_option messages (map_of (chats (sendMessage_complete ''why?''
          (Body True \<lparr>response_text = Some ''Because.'', error_text = None\<rparr>) Rejected 45 46 switched_away)) ''b'')
      = Some [\<lparr>mtype = Ai, content = ''Because.'', timestamp = 45\<rparr>]"
    using tb [THEN conjunct1]
    by (simp add: a_chat_def or_default_def)
  have f4: "map_option messages (map_of (chats (sendMessage_complete ''why?''
          (Body False \<lparr>response_text = None, error_text = Some ''busy''\<rparr>) Rejected 45 46 switched_away)) ''b'')
      = Some [\<lparr>mtype = Ai, content = ''busy'', timestamp = 45\<rparr>]"
    using te [THEN conjunct1]
    by (simp add: a_chat_def or_default_def)
  have f5: "map_option messages (map_of (chats (sendMessage_complete ''why?''
          Rejected Rejected 45 46 switched_away)) ''b'')
      = Some [\<lparr>mtype = Ai,
                content = ''Sorry, I couldn't connect to the server. Please check your connection and try again.'',
                timestamp = 45\<rparr>]"
    using tr [THEN conjunct1]
    by (simp add: a_chat_def)
  have f6: "map_of (chats (sendMessage_complete ''why?''
          (Body True \<lparr>response_text = Some ''Because.'', error_text = None\<rparr>) Rejected 45 46 switched_away)) ''a''
      = map_of (chats switched_away) ''a''"
    by (rule tb [THEN conjunct2, THEN spec, THEN mp, OF ne])
  have f7: "currentChat (three_chats\<lparr>currentChatId := Some ''gone''\<rparr>) = None"
    by (rule none)
  have f8: "chats (sendMessage_complete ''why?''
          (Body True \<lparr>response_text = Some ''Because.'', error_text = None\<rparr>) Rejected 45 46 (three_chats\<lparr>currentChatId := Some ''gone''\<rparr>))
      = chats three_chats"
    using d [THEN conjunct1] by simp
  have f9: "shownErrors (sendMessage_complete ''why?''
          (Body True \<lparr>response_text = Some ''Because.'', error_text = None\<rparr>) Rejected 45 46 (three_chats\<lparr>currentChatId := Some ''gone''\<rparr>))
      = []"
    using d [THEN conjunct2] by (simp add: three_chats_def new_app_def)
  show ?thesis
    by (intro conjI) (rule f1 f2 f3 f4 f5 f6 f7 f8 f9)+
qed

end
